theory Spec2Isabelle
  imports Complex_Main "HOL-Library.Word"
begin

section \<open>Timestamps\<close>

text \<open>
  \<^verbatim>\<open>FoxgloveStreamer._ts\<close> (foxglove_streamer.py, lines 394-396) turns a timestamp in
  microseconds into the dictionary \<^verbatim>\<open>{"sec": ..., "nsec": ...}\<close>. Python integers are
  unbounded, \<^verbatim>\<open>//\<close> is floor division and \<^verbatim>\<open>%\<close> takes the sign of the divisor, which
  is what \<open>div\<close> and \<open>mod\<close> on \<open>int\<close> do.
\<close>

datatype stamp = Stamp (sec: int) (nsec: int)

definition ts :: "int \<Rightarrow> stamp" where
  "ts timestamp_us = Stamp (timestamp_us div 1000000) ((timestamp_us mod 1000000) * 1000)"

section \<open>Radar colour ramp\<close>

text \<open>
  The colour of one radar point (\<^verbatim>\<open>_send_pointcloud\<close>, lines 267-279), from the value
  \<^verbatim>\<open>rcs\<close> read at row 6 of the point array. Floats are taken as reals.
\<close>

datatype rgba = RGBA (red: real) (green: real) (blue: real) (alpha: real)

definition rcs_norm :: "real \<Rightarrow> real" where
  "rcs_norm rcs = max 0 (min 1 ((rcs + 20) / 50))"

definition rcs_color :: "real \<Rightarrow> rgba" where
  "rcs_color rcs =
     (let n = rcs_norm rcs in
      if n < 1 / 2 then RGBA (n * 2) (n * 2) (1 - n * 2) 1
      else RGBA 1 (1 - (n - 1 / 2) * 2) 0 1)"

section \<open>Python values used by the relay\<close>

text \<open>
  Exceptions of the class \<^verbatim>\<open>Exception\<close>, which is what \<^verbatim>\<open>except Exception\<close> catches.
  The argument is the text that \<^verbatim>\<open>str(e)\<close> prints.
\<close>

datatype exn =
    KeyError string
  | IndexError string
  | ZeroDivisionError string
  | OSError string
  | RuntimeError string

text \<open>\<^verbatim>\<open>sub in s\<close> on strings: \<open>sub\<close> occurs in \<open>s\<close> as a contiguous substring.\<close>

fun starts_with :: "string \<Rightarrow> string \<Rightarrow> bool" where
  "starts_with [] s = True"
| "starts_with (c # cs) [] = False"
| "starts_with (c # cs) (d # ds) = (c = d \<and> starts_with cs ds)"

fun contains :: "string \<Rightarrow> string \<Rightarrow> bool" where
  "contains sub [] = (sub = [])"
| "contains sub (c # cs) = (starts_with sub (c # cs) \<or> contains sub cs)"

text \<open>\<^verbatim>\<open>s.split('.')\<close>: the pieces between the dots, never an empty list.\<close>

fun split_dot :: "string \<Rightarrow> string list" where
  "split_dot [] = [[]]"
| "split_dot (c # cs) =
     (if c = CHR ''.'' then [] # split_dot cs
      else (c # hd (split_dot cs)) # tl (split_dot cs))"

text \<open>
  \<^verbatim>\<open>base64.b64encode\<close> of the standard library (RFC 4648, standard alphabet, padded
  with \<^verbatim>\<open>=\<close>), on the bytes of a file.
\<close>

type_synonym byte = "8 word"

definition b64_alphabet :: string where
  "b64_alphabet = ''ABCDEFGHIJKLMNOPQRSTUVWXYZabcdefghijklmnopqrstuvwxyz0123456789+/''"

definition b64char :: "nat \<Rightarrow> char" where
  "b64char k = b64_alphabet ! (k mod 64)"

fun b64encode :: "byte list \<Rightarrow> string" where
  "b64encode (a # b # c # rest) =
     (let n = unat a * 65536 + unat b * 256 + unat c in
      b64char (n div 262144) # b64char (n div 4096) # b64char (n div 64) # b64char n
        # b64encode rest)"
| "b64encode [a, b] =
     (let n = (unat a * 256 + unat b) * 4 in
      [b64char (n div 4096), b64char (n div 64), b64char n, CHR ''=''])"
| "b64encode [a] =
     (let n = unat a * 16 in [b64char (n div 64), b64char n, CHR ''='', CHR ''=''])"
| "b64encode [] = []"

section \<open>Quaternions\<close>

text \<open>
  \<^verbatim>\<open>pyquaternion.Quaternion\<close>, with the coefficients \<open>w, x, y, z\<close> as reals: the Hamilton
  product (\<^verbatim>\<open>__mul__\<close>), \<^verbatim>\<open>conjugate\<close>, \<^verbatim>\<open>inverse\<close> (which raises
  \<^verbatim>\<open>ZeroDivisionError\<close> on the zero quaternion) and \<^verbatim>\<open>rotate\<close>, which first normalises
  the quaternion unless \<^verbatim>\<open>is_unit()\<close> holds (tolerance \<open>10\<^sup>-\<^sup>1\<^sup>4\<close>) and then returns the
  vector part of \<open>q * (0, v) * conjugate q\<close>.
\<close>

type_synonym vec3 = "real \<times> real \<times> real"

datatype quat = Quat (qw: real) (qx: real) (qy: real) (qz: real)

definition qmult :: "quat \<Rightarrow> quat \<Rightarrow> quat" where
  "qmult p q = Quat
     (qw p * qw q - qx p * qx q - qy p * qy q - qz p * qz q)
     (qw p * qx q + qx p * qw q + qy p * qz q - qz p * qy q)
     (qw p * qy q - qx p * qz q + qy p * qw q + qz p * qx q)
     (qw p * qz q + qx p * qy q - qy p * qx q + qz p * qw q)"

definition qconjugate :: "quat \<Rightarrow> quat" where
  "qconjugate q = Quat (qw q) (- qx q) (- qy q) (- qz q)"

definition sum_of_squares :: "quat \<Rightarrow> real" where
  "sum_of_squares q = qw q * qw q + qx q * qx q + qy q * qy q + qz q * qz q"

definition qscale :: "real \<Rightarrow> quat \<Rightarrow> quat" where
  "qscale k q = Quat (qw q / k) (qx q / k) (qy q / k) (qz q / k)"

definition qinverse :: "quat \<Rightarrow> exn + quat" where
  "qinverse q =
     (let ss = sum_of_squares q in
      if 0 < ss then Inr (qscale ss (qconjugate q))
      else Inl (ZeroDivisionError ''a zero quaternion (0 + 0i + 0j + 0k) cannot be inverted''))"

definition is_unit :: "quat \<Rightarrow> bool" where
  "is_unit q = (\<bar>1 - sum_of_squares q\<bar> < 1 / 10 ^ 14)"

definition qnormalise :: "quat \<Rightarrow> quat" where
  "qnormalise q =
     (if is_unit q then q
      else let n = sqrt (sum_of_squares q) in if 0 < n then qscale n q else q)"

definition qvector :: "quat \<Rightarrow> vec3" where
  "qvector q = (qx q, qy q, qz q)"

definition qrotate :: "quat \<Rightarrow> vec3 \<Rightarrow> vec3" where
  "qrotate q v =
     (let u = qnormalise q in
      case v of (x, y, z) \<Rightarrow> qvector (qmult (qmult u (Quat 0 x y z)) (qconjugate u)))"

text \<open>\<^verbatim>\<open>np.array(a) - np.array(b)\<close> on two vectors of three floats.\<close>

definition vsub :: "vec3 \<Rightarrow> vec3 \<Rightarrow> vec3" where
  "vsub a b = (case a of (ax, ay, az) \<Rightarrow> case b of (bx, by, bz) \<Rightarrow> (ax - bx, ay - by, az - bz))"

section \<open>The dataset\<close>

text \<open>
  The streamer reads the dataset through \<^verbatim>\<open>self.ts\<close>: the ordered scene table
  \<^verbatim>\<open>ts.scene\<close>, \<^verbatim>\<open>ts.get(table, token)\<close>, which raises \<^verbatim>\<open>KeyError\<close> for a token the
  table does not hold, and \<^verbatim>\<open>ts.get_sample_data_path(token)\<close>. Each row carries the keys
  the streamer reads. A sample's \<^verbatim>\<open>data\<close> dictionary is the list of its items in
  iteration order; \<^verbatim>\<open>translation\<close>, \<^verbatim>\<open>size\<close> are three floats and \<^verbatim>\<open>rotation\<close> is
  the four floats \<open>w, x, y, z\<close>. The key \<^verbatim>\<open>next\<close> is written \<open>nxt\<close>, and the keys
  \<^verbatim>\<open>timestamp\<close>, \<^verbatim>\<open>translation\<close>, \<^verbatim>\<open>rotation\<close>, \<^verbatim>\<open>size\<close>, \<^verbatim>\<open>name\<close>, \<^verbatim>\<open>token\<close> carry the name of
  their table. The field \<open>sample_table\<close> is the index behind \<^verbatim>\<open>ts.get('sample', _)\<close>, and
  so on for the other tables.
\<close>

type_synonym token = string

record scene_row =
  scene_token :: token
  first_sample_token :: token

record sample_row =
  sample_timestamp :: int
  data :: "(string \<times> token) list"
  anns :: "token list"
  nxt :: token

record sample_data_row =
  ego_pose_token :: token

record ego_pose_row =
  ego_translation :: vec3
  ego_rotation :: quat

record sample_annotation_row =
  instance_token :: token
  ann_translation :: vec3
  ann_rotation :: quat
  ann_size :: vec3

record instance_row =
  category_token :: token

record category_row =
  category_name :: string

record truckscenes =
  scene :: "scene_row list"
  sample_table :: "token \<rightharpoonup> sample_row"
  sample_data_table :: "token \<rightharpoonup> sample_data_row"
  ego_pose_table :: "token \<rightharpoonup> ego_pose_row"
  sample_annotation_table :: "token \<rightharpoonup> sample_annotation_row"
  instance_table :: "token \<rightharpoonup> instance_row"
  category_table :: "token \<rightharpoonup> category_row"
  get_sample_data_path :: "token \<Rightarrow> exn + string"

definition get :: "(token \<rightharpoonup> 'a) \<Rightarrow> token \<Rightarrow> exn + 'a" where
  "get table tok = (case table tok of None \<Rightarrow> Inl (KeyError tok) | Some row \<Rightarrow> Inr row)"

text \<open>
  A decoded point cloud: \<^verbatim>\<open>pc.points\<close> is an array of shape \<open>(n_rows, n_cols)\<close>, one
  column per point. \<^verbatim>\<open>pc.points[r, i]\<close> raises \<^verbatim>\<open>IndexError\<close> outside the shape.
\<close>

record cloud =
  n_rows :: nat
  n_cols :: nat
  entry :: "nat \<Rightarrow> nat \<Rightarrow> real"

definition points :: "cloud \<Rightarrow> nat \<Rightarrow> nat \<Rightarrow> exn + real" where
  "points pc r i =
     (if r < n_rows pc \<and> i < n_cols pc then Inr (entry pc r i)
      else Inl (IndexError ''index out of bounds''))"

section \<open>Messages\<close>

text \<open>
  The dictionaries handed to \<^verbatim>\<open>json.dumps\<close>, one constructor per schema. The keys of a
  scene entity that the streamer always leaves empty (\<^verbatim>\<open>metadata\<close>, \<^verbatim>\<open>arrows\<close>,
  \<^verbatim>\<open>cylinders\<close>, \<^verbatim>\<open>lines\<close>, \<^verbatim>\<open>triangles\<close>, \<^verbatim>\<open>models\<close>) and \<^verbatim>\<open>deletions\<close> are not
  carried. An orientation \<^verbatim>\<open>{"x":..,"y":..,"z":..,"w":..}\<close> is a \<open>quat\<close>.
\<close>

datatype pose = Pose (position: vec3) (orientation: quat)

datatype sphere = Sphere (sphere_pose: pose) (sphere_size: vec3) (sphere_color: rgba)

datatype cube = Cube (cube_pose: pose) (cube_size: vec3) (cube_color: rgba)

datatype text_prim = TextPrim (text_pose: pose) (billboard: bool) (font_size: real)
  (scale_invariant: bool) (text_color: rgba) (label_text: string)

datatype entity = Entity (entity_timestamp: stamp) (entity_frame_id: string) (entity_id: string)
  (lifetime: stamp) (frame_locked: bool) (entity_cubes: "cube list")
  (entity_spheres: "sphere list") (entity_texts: "text_prim list")

datatype transform = Transform (tf_timestamp: stamp) (parent_frame_id: string)
  (child_frame_id: string) (tf_translation: vec3) (tf_rotation: quat)

datatype calibration = Calibration (cal_timestamp: stamp) (cal_frame_id: string) (width: int)
  (height: int) (distortion_model: string) (cal_D: "real list") (cal_K: "real list")
  (cal_R: "real list") (cal_P: "real list")

datatype payload =
    FrameTransforms (transforms: "transform list")
  | CompressedImage (img_timestamp: stamp) (img_frame_id: string) (img_format: string)
      (img_data: string)
  | CameraCalibration calibration
  | SceneUpdate (entities: "entity list")

section \<open>The streamer, its state and its surroundings\<close>

type_synonym channel_id = nat

text \<open>
  The fields of \<^verbatim>\<open>FoxgloveStreamer\<close> as \<^verbatim>\<open>_register_channels\<close> leaves them. The flag
  \<^verbatim>\<open>self.running\<close> changes and is part of the state below.
\<close>

record streamer =
  dataset :: truckscenes
  port :: int
  channels :: "string \<rightharpoonup> channel_id"
  tf_channel :: channel_id
  annotations_channel :: channel_id

text \<open>The lines the streamer prints, one constructor per \<^verbatim>\<open>print\<close> call.\<close>

datatype line =
    Streaming_scene nat nat
  | Frame_line nat
  | Streaming_complete
  | Camera_error string exn
  | Pointcloud_error string exn
  | Annotations_error exn

text \<open>
  The state of a run: the flag \<^verbatim>\<open>self.running\<close>, the messages handed to
  \<^verbatim>\<open>server.send_message\<close> so far (channel, log time, payload) and the lines printed.
\<close>

record relay =
  running :: bool
  sent :: "(channel_id \<times> int \<times> payload) list"
  printed :: "line list"

text \<open>
  What lies outside the streamer: the file system, the two point-cloud decoders, whether
  \<^verbatim>\<open>server.send_message\<close> raises, and the other tasks of the event loop. The relay is a
  coroutine; while it is suspended other code may assign \<^verbatim>\<open>self.running\<close>. The relay
  reads the flag at the head of the \<^verbatim>\<open>while\<close> and right after the loop only, so the
  value that counts is the one the flag has when a frame's last suspension,
  \<^verbatim>\<open>asyncio.sleep(0.1)\<close>, ends: \<open>other_tasks\<close> gives it, from the state at that point.
\<close>

record world =
  read_file :: "string \<Rightarrow> exn + byte list"
  lidar_from_file :: "string \<Rightarrow> exn + cloud"
  radar_from_file :: "string \<Rightarrow> exn + cloud"
  send_raises :: "channel_id \<Rightarrow> int \<Rightarrow> payload \<Rightarrow> exn option"
  other_tasks :: "relay \<Rightarrow> bool"

definition print_line :: "line \<Rightarrow> relay \<Rightarrow> relay" where
  "print_line l s = s\<lparr>printed := printed s @ [l]\<rparr>"

definition send_message ::
  "world \<Rightarrow> channel_id \<Rightarrow> int \<Rightarrow> payload \<Rightarrow> relay \<Rightarrow> (exn + unit) \<times> relay" where
  "send_message w chan log_time msg s =
     (case send_raises w chan log_time msg of
        Some e \<Rightarrow> (Inl e, s)
      | None \<Rightarrow> (Inr (), s\<lparr>sent := sent s @ [(chan, log_time, msg)]\<rparr>))"

definition sleep :: "world \<Rightarrow> relay \<Rightarrow> relay" where
  "sleep w s = s\<lparr>running := other_tasks w s\<rparr>"

definition channel_of :: "streamer \<Rightarrow> string \<Rightarrow> exn + channel_id" where
  "channel_of self key = get (channels self) key"

section \<open>Sending one frame\<close>

text \<open>\<^verbatim>\<open>_send_transforms\<close> (lines 184-195). It has no \<^verbatim>\<open>try\<close>.\<close>

definition send_transforms :: "streamer \<Rightarrow> world \<Rightarrow> int \<Rightarrow> relay \<Rightarrow> (exn + unit) \<times> relay" where
  "send_transforms self w timestamp s =
     send_message w (tf_channel self) (timestamp * 1000)
       (FrameTransforms
          [Transform (ts timestamp) ''world'' ''base_link'' (0, 0, 0) (Quat 1 0 0 0)]) s"

text \<open>
  \<^verbatim>\<open>_send_camera\<close> (lines 197-232): \<open>camera_try\<close> is the body of the \<^verbatim>\<open>try\<close>,
  \<open>send_camera\<close> adds the handler.
\<close>

definition camera_info :: "int \<Rightarrow> payload" where
  "camera_info timestamp =
     (let fx = 1000; fy = 1000; cx = 960; cy = 540 in
      CameraCalibration (Calibration (ts timestamp) ''base_link'' 1920 1080 ''plumb_bob''
        [0, 0, 0, 0, 0]
        [fx, 0, cx, 0, fy, cy, 0, 0, 1]
        [1, 0, 0, 0, 1, 0, 0, 0, 1]
        [fx, 0, cx, 0, 0, fy, cy, 0, 0, 0, 1, 0]))"

definition camera_try ::
  "streamer \<Rightarrow> world \<Rightarrow> string \<Rightarrow> token \<Rightarrow> int \<Rightarrow> relay \<Rightarrow> (exn + unit) \<times> relay" where
  "camera_try self w channel sd_token timestamp s =
     (case get_sample_data_path (dataset self) sd_token of
        Inl e \<Rightarrow> (Inl e, s)
      | Inr path \<Rightarrow>
     (case read_file w path of
        Inl e \<Rightarrow> (Inl e, s)
      | Inr bytes \<Rightarrow>
     (let b64 = b64encode bytes;
          msg = CompressedImage (ts timestamp) ''base_link'' ''jpeg'' b64 in
      case channel_of self channel of
        Inl e \<Rightarrow> (Inl e, s)
      | Inr chan \<Rightarrow>
     (case send_message w chan (timestamp * 1000) msg s of
        (Inl e, s1) \<Rightarrow> (Inl e, s1)
      | (Inr u, s1) \<Rightarrow>
     (case channels self (channel @ ''_info'') of
        None \<Rightarrow> (Inr (), s1)
      | Some info_chan \<Rightarrow>
          send_message w info_chan (timestamp * 1000) (camera_info timestamp) s1)))))"

definition send_camera ::
  "streamer \<Rightarrow> world \<Rightarrow> string \<Rightarrow> token \<Rightarrow> int \<Rightarrow> relay \<Rightarrow> (exn + unit) \<times> relay" where
  "send_camera self w channel sd_token timestamp s =
     (case camera_try self w channel sd_token timestamp s of
        (Inl e, s1) \<Rightarrow> (Inr (), print_line (Camera_error channel e) s1)
      | (Inr u, s1) \<Rightarrow> (Inr (), s1))"

text \<open>
  \<^verbatim>\<open>_send_pointcloud\<close> (lines 234-310). \<open>for_each\<close> is a \<^verbatim>\<open>for\<close> loop that appends one
  item per element and stops at the first exception.
\<close>

fun for_each :: "('a \<Rightarrow> exn + 'b) \<Rightarrow> 'a list \<Rightarrow> exn + 'b list" where
  "for_each f [] = Inr []"
| "for_each f (i # rest) =
     (case f i of
        Inl e \<Rightarrow> Inl e
      | Inr x \<Rightarrow> (case for_each f rest of Inl e \<Rightarrow> Inl e | Inr xs \<Rightarrow> Inr (x # xs)))"

definition xyz :: "cloud \<Rightarrow> nat \<Rightarrow> exn + vec3" where
  "xyz pc i =
     (case points pc 0 i of Inl e \<Rightarrow> Inl e | Inr x \<Rightarrow>
     (case points pc 1 i of Inl e \<Rightarrow> Inl e | Inr y \<Rightarrow>
     (case points pc 2 i of Inl e \<Rightarrow> Inl e | Inr z \<Rightarrow> Inr (x, y, z))))"

definition lidar_sphere :: "cloud \<Rightarrow> nat \<Rightarrow> exn + sphere" where
  "lidar_sphere pc i =
     (case xyz pc i of
        Inl e \<Rightarrow> Inl e
      | Inr p \<Rightarrow>
          Inr (Sphere (Pose p (Quat 1 0 0 0)) (1 / 10, 1 / 10, 1 / 10) (RGBA 0 1 0 1)))"

definition radar_sphere :: "cloud \<Rightarrow> nat \<Rightarrow> exn + sphere" where
  "radar_sphere pc i =
     (case points pc 6 i of
        Inl e \<Rightarrow> Inl e
      | Inr rcs \<Rightarrow>
     (case xyz pc i of
        Inl e \<Rightarrow> Inl e
      | Inr p \<Rightarrow>
          Inr (Sphere (Pose p (Quat 1 0 0 0)) (3 / 10, 3 / 10, 3 / 10) (rcs_color rcs))))"

definition make_spheres :: "world \<Rightarrow> string \<Rightarrow> bool \<Rightarrow> exn + sphere list" where
  "make_spheres w path is_lidar =
     (if is_lidar then
        (case lidar_from_file w path of
           Inl e \<Rightarrow> Inl e
         | Inr pc \<Rightarrow> for_each (lidar_sphere pc) [0 ..< min (n_cols pc) 3000])
      else
        (case radar_from_file w path of
           Inl e \<Rightarrow> Inl e
         | Inr pc \<Rightarrow> for_each (radar_sphere pc) [0 ..< min (n_cols pc) 800]))"

definition pointcloud_try ::
  "streamer \<Rightarrow> world \<Rightarrow> string \<Rightarrow> token \<Rightarrow> int \<Rightarrow> bool \<Rightarrow> relay \<Rightarrow> (exn + unit) \<times> relay" where
  "pointcloud_try self w channel sd_token timestamp is_lidar s =
     (case get_sample_data_path (dataset self) sd_token of
        Inl e \<Rightarrow> (Inl e, s)
      | Inr path \<Rightarrow>
     (case make_spheres w path is_lidar of
        Inl e \<Rightarrow> (Inl e, s)
      | Inr sphs \<Rightarrow>
          if sphs \<noteq> [] then
            (case channel_of self channel of
               Inl e \<Rightarrow> (Inl e, s)
             | Inr chan \<Rightarrow>
                 send_message w chan (timestamp * 1000)
                   (SceneUpdate [Entity (ts timestamp) ''base_link'' channel
                      (Stamp 0 500000000) True [] sphs []]) s)
          else (Inr (), s)))"

definition send_pointcloud ::
  "streamer \<Rightarrow> world \<Rightarrow> string \<Rightarrow> token \<Rightarrow> int \<Rightarrow> bool \<Rightarrow> relay \<Rightarrow> (exn + unit) \<times> relay" where
  "send_pointcloud self w channel sd_token timestamp is_lidar s =
     (case pointcloud_try self w channel sd_token timestamp is_lidar s of
        (Inl e, s1) \<Rightarrow> (Inr (), print_line (Pointcloud_error channel e) s1)
      | (Inr u, s1) \<Rightarrow> (Inr (), s1))"

text \<open>\<^verbatim>\<open>CATEGORY_COLORS\<close> (lines 34-44) and the lookup with its grey default (line 347).\<close>

definition CATEGORY_COLORS :: "(string \<times> rgba) list" where
  "CATEGORY_COLORS =
     [(''vehicle.car'', RGBA 0 (1 / 2) 1 (7 / 10)),
      (''vehicle.truck'', RGBA 1 0 0 (7 / 10)),
      (''vehicle.bus'', RGBA 1 (1 / 2) 0 (7 / 10)),
      (''vehicle.bicycle'', RGBA 0 1 0 (7 / 10)),
      (''vehicle.motorcycle'', RGBA (1 / 2) 0 1 (7 / 10)),
      (''vehicle.trailer'', RGBA (8 / 10) (4 / 10) 0 (7 / 10)),
      (''human.pedestrian.adult'', RGBA 1 1 0 (7 / 10)),
      (''human.pedestrian.child'', RGBA 1 (8 / 10) 0 (7 / 10)),
      (''movable_object'', RGBA (1 / 2) (1 / 2) (1 / 2) (7 / 10))]"

definition category_color :: "string \<Rightarrow> rgba" where
  "category_color name =
     (case map_of CATEGORY_COLORS name of
        Some c \<Rightarrow> c
      | None \<Rightarrow> RGBA (1 / 2) (1 / 2) (1 / 2) (7 / 10))"

text \<open>
  \<^verbatim>\<open>_send_annotations\<close> (lines 312-392). \<open>lidar_token_of\<close> is line 316:
  \<^verbatim>\<open>d.get(k)\<close> is \<^verbatim>\<open>None\<close> for a missing key, and \<^verbatim>\<open>a or b\<close> is \<open>b\<close> when \<open>a\<close> is
  \<^verbatim>\<open>None\<close> or the empty string. \<open>annotation_prims\<close> is one turn of the loop over
  \<^verbatim>\<open>sample['anns']\<close> (lines 329-370): the cube and its label.
\<close>

definition truthy :: "token option \<Rightarrow> bool" where
  "truthy t = (case t of None \<Rightarrow> False | Some tok \<Rightarrow> tok \<noteq> [])"

definition lidar_token_of :: "sample_row \<Rightarrow> token option" where
  "lidar_token_of smp =
     (if truthy (map_of (data smp) ''LIDAR_LEFT'') then map_of (data smp) ''LIDAR_LEFT''
      else map_of (data smp) ''LIDAR_TOP_FRONT'')"

definition annotation_prims ::
  "streamer \<Rightarrow> ego_pose_row \<Rightarrow> token \<Rightarrow> exn + (cube \<times> text_prim)" where
  "annotation_prims self ego ann_token =
     (case get (sample_annotation_table (dataset self)) ann_token of
        Inl e \<Rightarrow> Inl e
      | Inr ann \<Rightarrow>
     (case get (instance_table (dataset self)) (instance_token ann) of
        Inl e \<Rightarrow> Inl e
      | Inr inst \<Rightarrow>
     (case get (category_table (dataset self)) (category_token inst) of
        Inl e \<Rightarrow> Inl e
      | Inr cat \<Rightarrow>
     (case qinverse (ego_rotation ego) of
        Inl e \<Rightarrow> Inl e
      | Inr ego_inverse \<Rightarrow>
     (let relative_pos = qrotate ego_inverse (vsub (ann_translation ann) (ego_translation ego));
          relative_rot = qmult ego_inverse (ann_rotation ann);
          color = category_color (category_name cat)
      in case relative_pos of (px, py, pz) \<Rightarrow>
         case ann_size ann of (size0, size1, size2) \<Rightarrow>
           Inr (Cube (Pose (px, py, pz) relative_rot) (size1, size0, size2) color,
                TextPrim (Pose (px, py, pz + size2 / 2 + 1 / 2) (Quat 1 0 0 0))
                  True 12 True (RGBA 1 1 1 1) (last (split_dot (category_name cat)))))))))"

definition annotations_try ::
  "streamer \<Rightarrow> world \<Rightarrow> sample_row \<Rightarrow> int \<Rightarrow> relay \<Rightarrow> (exn + unit) \<times> relay" where
  "annotations_try self w smp timestamp s =
     (case lidar_token_of smp of
        None \<Rightarrow> (Inr (), s)
      | Some lidar_token \<Rightarrow>
          if lidar_token = [] then (Inr (), s)
          else
     (case get (sample_data_table (dataset self)) lidar_token of
        Inl e \<Rightarrow> (Inl e, s)
      | Inr sd \<Rightarrow>
     (case get (ego_pose_table (dataset self)) (ego_pose_token sd) of
        Inl e \<Rightarrow> (Inl e, s)
      | Inr ego \<Rightarrow>
     (case for_each (annotation_prims self ego) (anns smp) of
        Inl e \<Rightarrow> (Inl e, s)
      | Inr prims \<Rightarrow>
          if map fst prims \<noteq> [] then
            send_message w (annotations_channel self) (timestamp * 1000)
              (SceneUpdate [Entity (ts timestamp) ''base_link'' ''annotations''
                 (Stamp 0 500000000) True (map fst prims) [] (map snd prims)]) s
          else (Inr (), s)))))"

definition send_annotations ::
  "streamer \<Rightarrow> world \<Rightarrow> sample_row \<Rightarrow> int \<Rightarrow> relay \<Rightarrow> (exn + unit) \<times> relay" where
  "send_annotations self w smp timestamp s =
     (case annotations_try self w smp timestamp s of
        (Inl e, s1) \<Rightarrow> (Inr (), print_line (Annotations_error e) s1)
      | (Inr u, s1) \<Rightarrow> (Inr (), s1))"

section \<open>The relay loop\<close>

text \<open>
  \<^verbatim>\<open>_stream_data\<close> (lines 143-182). \<open>send_sensor\<close> is one turn of the loop over
  \<^verbatim>\<open>sample['data'].items()\<close> (lines 161-167), \<open>for_sensors\<close> that loop, and \<open>frame\<close>
  the body of the \<^verbatim>\<open>while\<close> (lines 153-177), which returns the next token and the
  frame count: the lookup of line 153, then \<open>frame_body\<close> on the row found (lines
  154-177). An exception that reaches \<open>frame\<close> leaves \<^verbatim>\<open>_stream_data\<close>.
\<close>

definition send_sensor ::
  "streamer \<Rightarrow> world \<Rightarrow> int \<Rightarrow> string \<times> token \<Rightarrow> relay \<Rightarrow> (exn + unit) \<times> relay" where
  "send_sensor self w timestamp item s =
     (case item of (channel, sd_token) \<Rightarrow>
        if channels self channel \<noteq> None then
          if contains ''CAMERA'' channel then send_camera self w channel sd_token timestamp s
          else if contains ''LIDAR'' channel then
            send_pointcloud self w channel sd_token timestamp True s
          else if contains ''RADAR'' channel then
            send_pointcloud self w channel sd_token timestamp False s
          else (Inr (), s)
        else (Inr (), s))"

fun for_sensors ::
  "streamer \<Rightarrow> world \<Rightarrow> int \<Rightarrow> (string \<times> token) list \<Rightarrow> relay \<Rightarrow> (exn + unit) \<times> relay" where
  "for_sensors self w timestamp [] s = (Inr (), s)"
| "for_sensors self w timestamp (item # rest) s =
     (case send_sensor self w timestamp item s of
        (Inl e, s1) \<Rightarrow> (Inl e, s1)
      | (Inr u, s1) \<Rightarrow> for_sensors self w timestamp rest s1)"

definition send_frame :: "streamer \<Rightarrow> world \<Rightarrow> sample_row \<Rightarrow> relay \<Rightarrow> (exn + unit) \<times> relay" where
  "send_frame self w smp s =
     (let timestamp = sample_timestamp smp in
      case send_transforms self w timestamp s of
        (Inl e, s1) \<Rightarrow> (Inl e, s1)
      | (Inr u, s1) \<Rightarrow>
     (case for_sensors self w timestamp (data smp) s1 of
        (Inl e, s2) \<Rightarrow> (Inl e, s2)
      | (Inr u, s2) \<Rightarrow> send_annotations self w smp timestamp s2))"

definition frame_body ::
  "streamer \<Rightarrow> world \<Rightarrow> sample_row \<Rightarrow> nat \<Rightarrow> relay \<Rightarrow> (exn + token \<times> nat) \<times> relay" where
  "frame_body self w smp frame_count s =
     (case send_frame self w smp s of
        (Inl e, s1) \<Rightarrow> (Inl e, s1)
      | (Inr u, s1) \<Rightarrow>
     (let s2 = (if (frame_count + 1) mod 10 = 0 then print_line (Frame_line (frame_count + 1)) s1
                else s1)
      in (Inr (nxt smp, frame_count + 1), sleep w s2)))"

definition frame ::
  "streamer \<Rightarrow> world \<Rightarrow> token \<Rightarrow> nat \<Rightarrow> relay \<Rightarrow> (exn + token \<times> nat) \<times> relay" where
  "frame self w current_token frame_count s =
     (case get (sample_table (dataset self)) current_token of
        Inl e \<Rightarrow> (Inl e, s)
      | Inr smp \<Rightarrow> frame_body self w smp frame_count s)"

text \<open>
  The \<^verbatim>\<open>while current_token and self.running\<close> loop. A chain of \<^verbatim>\<open>next\<close> tokens that
  runs into itself never ends, so the loop is a partial function: \<open>None\<close> is a run
  that does not return.
\<close>

partial_function (option) sample_loop ::
  "streamer \<Rightarrow> world \<Rightarrow> token \<Rightarrow> nat \<Rightarrow> relay \<Rightarrow> ((exn + unit) \<times> relay) option" where
  "sample_loop self w current_token frame_count s =
     (if current_token \<noteq> [] \<and> running s then
        (case frame self w current_token frame_count s of
           (Inl e, s1) \<Rightarrow> Some (Inl e, s1)
         | (Inr (tok, fc), s1) \<Rightarrow> sample_loop self w tok fc s1)
      else Some (Inr (), s))"

text \<open>The \<^verbatim>\<open>for scene_idx, scene in enumerate(self.ts.scene)\<close> loop with its \<^verbatim>\<open>break\<close>.\<close>

fun scene_loop ::
  "streamer \<Rightarrow> world \<Rightarrow> nat \<Rightarrow> scene_row list \<Rightarrow> relay \<Rightarrow> ((exn + unit) \<times> relay) option" where
  "scene_loop self w scene_idx [] s = Some (Inr (), s)"
| "scene_loop self w scene_idx (sc # rest) s =
     (case sample_loop self w (first_sample_token sc) 0
             (print_line (Streaming_scene (scene_idx + 1) (length (scene (dataset self)))) s) of
        None \<Rightarrow> None
      | Some (Inl e, s1) \<Rightarrow> Some (Inl e, s1)
      | Some (Inr u, s1) \<Rightarrow>
          if \<not> running s1 then Some (Inr (), s1)
          else scene_loop self w (scene_idx + 1) rest s1)"

definition stream_data :: "streamer \<Rightarrow> world \<Rightarrow> relay \<Rightarrow> ((exn + unit) \<times> relay) option" where
  "stream_data self w s =
     (case scene_loop self w 0 (scene (dataset self)) s of
        None \<Rightarrow> None
      | Some (Inl e, s1) \<Rightarrow> Some (Inl e, s1)
      | Some (Inr u, s1) \<Rightarrow> Some (Inr (), print_line Streaming_complete s1))"

section \<open>The walk the specification describes\<close>

text \<open>
  The relay as the specification words it. \<open>chain_of db tok smps\<close>: starting at
  \<open>tok\<close> and following \<^verbatim>\<open>next\<close> visits exactly the rows \<open>smps\<close>, in this order, and
  then reaches the empty token. \<open>walk_chain\<close> handles the rows of one chain one after
  the other, each once, counting frames; \<open>walk_scenes\<close> does so for one chain per scene,
  in table order, after the scene's heading line.
\<close>

fun chain_of :: "truckscenes \<Rightarrow> token \<Rightarrow> sample_row list \<Rightarrow> bool" where
  "chain_of db tok [] = (tok = [])"
| "chain_of db tok (smp # rest) =
     (tok \<noteq> [] \<and> sample_table db tok = Some smp \<and> chain_of db (nxt smp) rest)"

fun walk_chain :: "streamer \<Rightarrow> world \<Rightarrow> nat \<Rightarrow> sample_row list \<Rightarrow> relay \<Rightarrow> relay" where
  "walk_chain self w frame_count [] s = s"
| "walk_chain self w frame_count (smp # rest) s =
     walk_chain self w (frame_count + 1) rest (snd (frame_body self w smp frame_count s))"

fun walk_scenes :: "streamer \<Rightarrow> world \<Rightarrow> nat \<Rightarrow> sample_row list list \<Rightarrow> relay \<Rightarrow> relay" where
  "walk_scenes self w scene_idx [] s = s"
| "walk_scenes self w scene_idx (smps # rest) s =
     walk_scenes self w (scene_idx + 1) rest
       (walk_chain self w 0 smps
          (print_line (Streaming_scene (scene_idx + 1) (length (scene (dataset self)))) s))"

text \<open>
  Every frame starts with one \<^verbatim>\<open>FrameTransforms\<close> message, and nothing else sends one:
  the log times of these messages tell which samples were handled, and in which order.
\<close>

fun is_transforms :: "channel_id \<times> int \<times> payload \<Rightarrow> bool" where
  "is_transforms (chan, log_time, FrameTransforms tfs) = True"
| "is_transforms (chan, log_time, msg) = False"

definition frames_sent :: "relay \<Rightarrow> int list" where
  "frames_sent s = map (\<lambda>m. fst (snd m)) (filter is_transforms (sent s))"

section \<open>The command line\<close>











text \<open>The messages a step sends: what its result state has in the log beyond \<open>s\<close>.\<close>

definition published :: "relay \<Rightarrow> 'a \<times> relay \<Rightarrow> (channel_id \<times> int \<times> payload) list" where
  "published s r = drop (length (sent s)) (sent (snd r))"

section \<open>A small dataset\<close>

text \<open>
  One scene of two samples, used to evaluate the definitions: the first sample has a
  camera, a lidar and a radar and one annotated car, the second a camera only. The image
  of the second sample is missing from the disk.
\<close>

definition demo_sample_1 :: sample_row where
  "demo_sample_1 = \<lparr>
     sample_timestamp = 1000000,
     data = [(''CAMERA_LEFT_FRONT'', ''cam1''), (''LIDAR_LEFT'', ''lid1''),
             (''RADAR_LEFT_FRONT'', ''rad1'')],
     anns = [''ann1''],
     nxt = ''s2'' \<rparr>"

definition demo_sample_2 :: sample_row where
  "demo_sample_2 = \<lparr>
     sample_timestamp = 1100000,
     data = [(''CAMERA_LEFT_FRONT'', ''cam2'')],
     anns = [''ann1''],
     nxt = [] \<rparr>"

definition demo_dataset :: truckscenes where
  "demo_dataset = \<lparr>
     scene = [\<lparr>scene_token = ''scene-1'', first_sample_token = ''s1''\<rparr>],
     sample_table = [''s1'' \<mapsto> demo_sample_1, ''s2'' \<mapsto> demo_sample_2],
     sample_data_table = [''lid1'' \<mapsto> \<lparr>ego_pose_token = ''ego1''\<rparr>],
     ego_pose_table =
       [''ego1'' \<mapsto> \<lparr>ego_translation = (10, 0, 0), ego_rotation = Quat 0 0 0 1\<rparr>],
     sample_annotation_table =
       [''ann1'' \<mapsto> \<lparr>instance_token = ''inst1'', ann_translation = (12, 1, 0),
                     ann_rotation = Quat 0 0 0 1, ann_size = (2, 5, 3)\<rparr>],
     instance_table = [''inst1'' \<mapsto> \<lparr>category_token = ''cat1''\<rparr>],
     category_table = [''cat1'' \<mapsto> \<lparr>category_name = ''vehicle.car''\<rparr>],
     get_sample_data_path = (\<lambda>tok. Inr (''/data/'' @ tok)) \<rparr>"

definition demo_streamer :: streamer where
  "demo_streamer = \<lparr>
     dataset = demo_dataset,
     port = 8765,
     channels = [''CAMERA_LEFT_FRONT'' \<mapsto> 0, ''CAMERA_LEFT_FRONT_info'' \<mapsto> 1,
                 ''LIDAR_LEFT'' \<mapsto> 2, ''RADAR_LEFT_FRONT'' \<mapsto> 3],
     tf_channel = 4,
     annotations_channel = 5 \<rparr>"

definition demo_lidar :: cloud where
  "demo_lidar = \<lparr>n_rows = 4, n_cols = 2, entry = (\<lambda>r i. real (10 * i + r))\<rparr>"

definition demo_radar :: cloud where
  "demo_radar = \<lparr>n_rows = 7, n_cols = 1, entry = (\<lambda>r i. if r = 6 then 30 else real r)\<rparr>"

definition demo_world :: world where
  "demo_world = \<lparr>
     read_file = (\<lambda>path. if path = ''/data/cam1'' then Inr [0x4D, 0x61]
                         else Inl (OSError ''No such file or directory'')),
     lidar_from_file = (\<lambda>path. Inr demo_lidar),
     radar_from_file = (\<lambda>path. Inr demo_radar),
     send_raises = (\<lambda>chan log_time msg. None),
     other_tasks = running \<rparr>"

definition idle :: relay where
  "idle = \<lparr>running = True, sent = [], printed = []\<rparr>"

text \<open>The same surroundings with another task that clears the flag during every frame.\<close>

definition demo_stopping_world :: world where
  "demo_stopping_world = demo_world\<lparr>other_tasks := (\<lambda>s. False)\<rparr>"



section \<open>Properties of the conversions\<close>

text \<open>
  C3. For a timestamp \<open>t \<ge> 0\<close> in microseconds, \<open>ts t\<close> has \<open>sec = t div 10\<^sup>6\<close> and
  \<open>nsec = (t mod 10\<^sup>6) * 1000\<close>, the nanoseconds lie in \<open>[0, 10\<^sup>9)\<close> and are a whole
  number of microseconds, and \<open>sec * 10\<^sup>6 + nsec / 1000\<close> gives \<open>t\<close> back.
\<close>

theorem ts_roundtrip:
  assumes "0 \<le> t"
  shows "ts t = Stamp (t div 1000000) ((t mod 1000000) * 1000)
       \<and> 0 \<le> nsec (ts t) \<and> nsec (ts t) < 1000000000
       \<and> nsec (ts t) mod 1000 = 0
       \<and> sec (ts t) * 1000000 + nsec (ts t) div 1000 = t"
  by (simp add: ts_def)

theorem ts_roundtrip_witness:
  "(0::int) \<le> 1700000000123456
   \<and> ts 1700000000123456 = Stamp 1700000000 123456000
   \<and> sec (ts 1700000000123456) * 1000000 + nsec (ts 1700000000123456) div 1000
       = 1700000000123456"
  using ts_roundtrip [of 1700000000123456] by simp

section \<open>Properties of the radar colours\<close>

text \<open>
  C4, as the code has it. For \<open>rcs1 \<le> rcs2\<close> the red component does not decrease and
  the blue component does not increase. The green component does not decrease up to
  5 dBsm (where the normalised value reaches one half and the colour is yellow) and does
  not increase from there on: the ramp runs from blue over yellow to red.
\<close>

theorem rcs_color_ramp:
  assumes "rcs1 \<le> rcs2"
  shows "red (rcs_color rcs1) \<le> red (rcs_color rcs2)
       \<and> blue (rcs_color rcs2) \<le> blue (rcs_color rcs1)
       \<and> (rcs2 \<le> 5 \<longrightarrow> green (rcs_color rcs1) \<le> green (rcs_color rcs2))
       \<and> (5 \<le> rcs1 \<longrightarrow> green (rcs_color rcs2) \<le> green (rcs_color rcs1))"
  using assms
  by (auto simp: rcs_color_def rcs_norm_def Let_def max_def min_def field_simps)

theorem rcs_color_ramp_witness:
  "(-20::real) \<le> 5 \<and> (5::real) \<le> 30
   \<and> rcs_color (-20) = RGBA 0 0 1 1 \<and> rcs_color 5 = RGBA 1 1 0 1 \<and> rcs_color 30 = RGBA 1 0 0 1
   \<and> green (rcs_color (-20)) \<le> green (rcs_color 5)
   \<and> green (rcs_color 30) \<le> green (rcs_color 5)"
  using rcs_color_ramp [of "-20" 5] rcs_color_ramp [of 5 30]
  by (simp add: rcs_color_def rcs_norm_def Let_def)

text \<open>
  C4 as stated asks for a green component that never decreases. Between 5 dBsm (yellow,
  green 1) and 30 dBsm (red, green 0) it does.
\<close>

theorem rcs_green_counterexample:
  "(5::real) \<le> 30 \<and> \<not> green (rcs_color 5) \<le> green (rcs_color 30)"
  by (simp add: rcs_color_def rcs_norm_def Let_def)

section \<open>Properties of the annotations\<close>

text \<open>
  C10. When the \<^verbatim>\<open>data\<close> dictionary of a sample has neither the key \<^verbatim>\<open>LIDAR_LEFT\<close> nor
  the key \<^verbatim>\<open>LIDAR_TOP_FRONT\<close>, \<open>send_annotations\<close> returns with the state as it was:
  no message is sent and nothing is printed, whatever the sample's annotation list holds.
\<close>

theorem send_annotations_no_lidar:
  assumes "map_of (data smp) ''LIDAR_LEFT'' = None"
      and "map_of (data smp) ''LIDAR_TOP_FRONT'' = None"
  shows "send_annotations self w smp timestamp s = (Inr (), s)"
  using assms
  by (simp add: send_annotations_def annotations_try_def lidar_token_of_def truthy_def)

theorem send_annotations_no_lidar_witness:
  "map_of (data demo_sample_2) ''LIDAR_LEFT'' = None
   \<and> map_of (data demo_sample_2) ''LIDAR_TOP_FRONT'' = None
   \<and> anns demo_sample_2 = [''ann1'']
   \<and> send_annotations demo_streamer demo_world demo_sample_2 1100000 idle = (Inr (), idle)"
  using send_annotations_no_lidar [of demo_sample_2 demo_streamer demo_world 1100000 idle]
  by (simp add: demo_sample_2_def)

section \<open>Properties of the command line\<close>




section \<open>Properties of the loops that build messages\<close>

lemma for_each_Inr:
  "for_each f xs = Inr ys \<Longrightarrow> length ys = length xs \<and> (\<forall>i<length xs. f (xs ! i) = Inr (ys ! i))"
proof (induction xs arbitrary: ys)
  case Nil
  then show ?case by simp
next
  case (Cons x xs)
  then obtain y ys' where y: "f x = Inr y" and ys': "for_each f xs = Inr ys'" and eq: "ys = y # ys'"
    by (auto split: sum.splits)
  from Cons.IH [OF ys'] y eq show ?case
    by (auto simp: nth_Cons')
qed

lemma for_each_total:
  "(\<forall>x\<in>set xs. \<exists>y. f x = Inr y) \<Longrightarrow> \<exists>ys. for_each f xs = Inr ys"
  by (induction xs) auto

section \<open>Properties of the camera frames\<close>

text \<open>
  C6. Every \<^verbatim>\<open>CompressedImage\<close> message that \<open>send_camera\<close> sends has the format
  \<^verbatim>\<open>jpeg\<close> and carries, as its \<^verbatim>\<open>data\<close>, the base64 encoding of the bytes read from the
  file at \<open>get_sample_data_path sd_token\<close>, unchanged. When the path is found, the file is
  read, the channel is registered and the send does not raise, that message is the first
  one sent.
\<close>

theorem camera_passthrough:
  "(\<forall>c t st fid fmt d.
       (c, t, CompressedImage st fid fmt d)
         \<in> set (published s (send_camera self w channel sd_token timestamp s)) \<longrightarrow>
       fmt = ''jpeg''
       \<and> (\<exists>path bytes. get_sample_data_path (dataset self) sd_token = Inr path
             \<and> read_file w path = Inr bytes \<and> d = b64encode bytes))
   \<and> (get_sample_data_path (dataset self) sd_token = Inr path'
        \<and> read_file w path' = Inr bytes'
        \<and> channels self channel = Some chan
        \<and> send_raises w chan (timestamp * 1000)
             (CompressedImage (ts timestamp) ''base_link'' ''jpeg'' (b64encode bytes')) = None \<longrightarrow>
       (\<exists>rest. published s (send_camera self w channel sd_token timestamp s) =
          (chan, timestamp * 1000,
           CompressedImage (ts timestamp) ''base_link'' ''jpeg'' (b64encode bytes')) # rest))"
  by (auto simp: published_def send_camera_def camera_try_def channel_of_def get_def
        send_message_def print_line_def camera_info_def Let_def
      split: sum.splits option.splits prod.splits)

theorem camera_passthrough_witness:
  "get_sample_data_path (dataset demo_streamer) ''cam1'' = Inr ''/data/cam1''
   \<and> read_file demo_world ''/data/cam1'' = Inr [0x4D, 0x61]
   \<and> channels demo_streamer ''CAMERA_LEFT_FRONT'' = Some 0
   \<and> b64encode [0x4D, 0x61] = ''TWE=''
   \<and> hd (published idle
            (send_camera demo_streamer demo_world ''CAMERA_LEFT_FRONT'' ''cam1'' 1000000 idle))
      = (0, 1000000000, CompressedImage (Stamp 1 0) ''base_link'' ''jpeg'' ''TWE='')"
  using camera_passthrough [where s = idle and self = demo_streamer and w = demo_world
      and channel = "''CAMERA_LEFT_FRONT''" and sd_token = "''cam1''" and timestamp = 1000000
      and path' = "''/data/cam1''" and bytes' = "[0x4D, 0x61]" and chan = 0]
  by (auto simp: demo_streamer_def demo_dataset_def demo_world_def ts_def
        b64char_def b64_alphabet_def)

section \<open>Properties of the point clouds\<close>

lemma xyz_Inr: "xyz pc i = Inr p \<Longrightarrow> p = (entry pc 0 i, entry pc 1 i, entry pc 2 i)"
  by (auto simp: xyz_def points_def split: sum.splits if_splits)

lemma xyz_ok: "3 \<le> n_rows pc \<Longrightarrow> i < n_cols pc \<Longrightarrow> xyz pc i = Inr (entry pc 0 i, entry pc 1 i, entry pc 2 i)"
  by (simp add: xyz_def points_def)

lemma lidar_sphere_Inr:
  "lidar_sphere pc i = Inr sp \<Longrightarrow> position (sphere_pose sp) = (entry pc 0 i, entry pc 1 i, entry pc 2 i)"
  by (auto simp: lidar_sphere_def split: sum.splits dest: xyz_Inr)

lemma radar_sphere_Inr:
  "radar_sphere pc i = Inr sp \<Longrightarrow> position (sphere_pose sp) = (entry pc 0 i, entry pc 1 i, entry pc 2 i)
     \<and> sphere_color sp = rcs_color (entry pc 6 i)"
  by (auto simp: radar_sphere_def points_def split: sum.splits if_splits dest: xyz_Inr)

lemma make_spheres_Inr:
  assumes "make_spheres w path is_lidar = Inr sphs"
  shows "\<exists>pc. (if is_lidar then lidar_from_file w path else radar_from_file w path) = Inr pc
          \<and> length sphs = min (n_cols pc) (if is_lidar then 3000 else 800)
          \<and> (\<forall>i<length sphs. position (sphere_pose (sphs ! i)) = (entry pc 0 i, entry pc 1 i, entry pc 2 i))"
proof (cases is_lidar)
  case True
  with assms obtain pc where pc: "lidar_from_file w path = Inr pc"
    and fe: "for_each (lidar_sphere pc) [0 ..< min (n_cols pc) 3000] = Inr sphs"
    by (auto simp: make_spheres_def split: sum.splits)
  from for_each_Inr [OF fe] have len: "length sphs = min (n_cols pc) 3000"
    and nth: "\<forall>i<min (n_cols pc) 3000. lidar_sphere pc i = Inr (sphs ! i)"
    by auto
  from nth have "\<forall>i<length sphs. position (sphere_pose (sphs ! i)) = (entry pc 0 i, entry pc 1 i, entry pc 2 i)"
    using len lidar_sphere_Inr by auto
  with pc len True show ?thesis by auto
next
  case False
  with assms obtain pc where pc: "radar_from_file w path = Inr pc"
    and fe: "for_each (radar_sphere pc) [0 ..< min (n_cols pc) 800] = Inr sphs"
    by (auto simp: make_spheres_def split: sum.splits)
  from for_each_Inr [OF fe] have len: "length sphs = min (n_cols pc) 800"
    and nth: "\<forall>i<min (n_cols pc) 800. radar_sphere pc i = Inr (sphs ! i)"
    by auto
  from nth have "\<forall>i<length sphs. position (sphere_pose (sphs ! i)) = (entry pc 0 i, entry pc 1 i, entry pc 2 i)"
    using len radar_sphere_Inr by auto
  with pc len False show ?thesis by auto
qed

lemma published_pointcloud:
  "published s (send_pointcloud self w channel sd_token timestamp is_lidar s) = []
   \<or> (\<exists>path sphs chan. get_sample_data_path (dataset self) sd_token = Inr path
        \<and> make_spheres w path is_lidar = Inr sphs \<and> sphs \<noteq> []
        \<and> channels self channel = Some chan
        \<and> published s (send_pointcloud self w channel sd_token timestamp is_lidar s) =
            [(chan, timestamp * 1000,
              SceneUpdate [Entity (ts timestamp) ''base_link'' channel (Stamp 0 500000000) True
                 [] sphs []])])"
  by (auto simp: published_def send_pointcloud_def pointcloud_try_def channel_of_def get_def
        send_message_def print_line_def
      split: sum.splits option.splits prod.splits)


lemma make_spheres_total:
  assumes "(if is_lidar then lidar_from_file w path else radar_from_file w path) = Inr pc" "(if is_lidar then 3 else 7) \<le> n_rows pc"
  shows "\<exists>sphs. make_spheres w path is_lidar = Inr sphs"
proof (cases is_lidar)
  case True
  have "\<forall>i\<in>set [0 ..< min (n_cols pc) 3000]. \<exists>y. lidar_sphere pc i = Inr y"
    using assms True by (simp add: lidar_sphere_def xyz_ok)
  from for_each_total [OF this] assms True show ?thesis
    by (simp add: make_spheres_def)
next
  case False
  have "\<forall>i\<in>set [0 ..< min (n_cols pc) 800]. \<exists>y. radar_sphere pc i = Inr y"
    using assms False by (simp add: radar_sphere_def xyz_ok points_def)
  from for_each_total [OF this] assms False show ?thesis
    by (simp add: make_spheres_def)
qed

lemma pointcloud_sends:
  assumes "get_sample_data_path (dataset self) sd_token = Inr path"
      and "make_spheres w path is_lidar = Inr sphs" "sphs \<noteq> []"
      and "channels self channel = Some chan"
      and "\<forall>m. send_raises w chan (timestamp * 1000) m = None"
  shows "published s (send_pointcloud self w channel sd_token timestamp is_lidar s) \<noteq> []"
  using assms
  by (simp add: published_def send_pointcloud_def pointcloud_try_def channel_of_def get_def
        send_message_def)

text \<open>
  C9. Whatever \<open>send_pointcloud\<close> sends is a single scene update of one entity, whose
  spheres are as many as the decoded cloud has points, capped at 3000 for a lidar and at
  800 for a radar, and sphere \<open>i\<close> sits at point \<open>i\<close> of the cloud: the spheres are a
  prefix of the point array. A cloud without points sends nothing. A cloud with points
  and with the rows the routine reads (three for a lidar, seven for a radar) is sent when
  the channel is registered and the send does not raise.
\<close>

theorem pointcloud_capped:
  "(published s (send_pointcloud self w channel sd_token timestamp is_lidar s) = []
    \<or> (\<exists>path pc chan e.
          get_sample_data_path (dataset self) sd_token = Inr path
          \<and> (if is_lidar then lidar_from_file w path else radar_from_file w path) = Inr pc
          \<and> channels self channel = Some chan
          \<and> published s (send_pointcloud self w channel sd_token timestamp is_lidar s) =
               [(chan, timestamp * 1000, SceneUpdate [e])]
          \<and> length (entity_spheres e) = min (n_cols pc) (if is_lidar then 3000 else 800)
          \<and> (\<forall>i<length (entity_spheres e).
                position (sphere_pose (entity_spheres e ! i)) =
                  (entry pc 0 i, entry pc 1 i, entry pc 2 i))))
   \<and> (get_sample_data_path (dataset self) sd_token = Inr path'
        \<and> (if is_lidar then lidar_from_file w path' else radar_from_file w path') = Inr pc'
        \<and> n_cols pc' = 0 \<longrightarrow>
       published s (send_pointcloud self w channel sd_token timestamp is_lidar s) = [])
   \<and> (get_sample_data_path (dataset self) sd_token = Inr path'
        \<and> (if is_lidar then lidar_from_file w path' else radar_from_file w path') = Inr pc'
        \<and> 0 < n_cols pc' \<and> (if is_lidar then 3 else 7) \<le> n_rows pc'
        \<and> channels self channel = Some chan'
        \<and> (\<forall>m. send_raises w chan' (timestamp * 1000) m = None) \<longrightarrow>
       published s (send_pointcloud self w channel sd_token timestamp is_lidar s) \<noteq> [])"
proof (intro conjI impI)
  let ?R = "send_pointcloud self w channel sd_token timestamp is_lidar s"
  show "published s ?R = []
    \<or> (\<exists>path pc chan e.
          get_sample_data_path (dataset self) sd_token = Inr path
          \<and> (if is_lidar then lidar_from_file w path else radar_from_file w path) = Inr pc
          \<and> channels self channel = Some chan
          \<and> published s ?R = [(chan, timestamp * 1000, SceneUpdate [e])]
          \<and> length (entity_spheres e) = min (n_cols pc) (if is_lidar then 3000 else 800)
          \<and> (\<forall>i<length (entity_spheres e).
                position (sphere_pose (entity_spheres e ! i)) =
                  (entry pc 0 i, entry pc 1 i, entry pc 2 i)))"
  proof (cases "published s ?R = []")
    case True
    then show ?thesis by simp
  next
    case False
    with published_pointcloud [of s self w channel sd_token timestamp is_lidar]
    obtain path sphs chan where path: "get_sample_data_path (dataset self) sd_token = Inr path"
      and ms: "make_spheres w path is_lidar = Inr sphs"
      and chan: "channels self channel = Some chan"
      and pub: "published s ?R =
            [(chan, timestamp * 1000,
              SceneUpdate [Entity (ts timestamp) ''base_link'' channel (Stamp 0 500000000) True
                 [] sphs []])]"
      by blast
    from make_spheres_Inr [OF ms] obtain pc where pc: "(if is_lidar then lidar_from_file w path else radar_from_file w path) = Inr pc"
      and len: "length sphs = min (n_cols pc) (if is_lidar then 3000 else 800)"
      and pos: "\<forall>i<length sphs. position (sphere_pose (sphs ! i)) = (entry pc 0 i, entry pc 1 i, entry pc 2 i)"
      by blast
    show ?thesis
      apply (rule disjI2)
      apply (rule exI [of _ path], rule exI [of _ pc], rule exI [of _ chan])
      apply (rule exI [of _ "Entity (ts timestamp) ''base_link'' channel (Stamp 0 500000000) True [] sphs []"])
      using path pc chan pub len pos by simp
  qed
next
  let ?R = "send_pointcloud self w channel sd_token timestamp is_lidar s"
  assume a: "get_sample_data_path (dataset self) sd_token = Inr path'
        \<and> (if is_lidar then lidar_from_file w path' else radar_from_file w path') = Inr pc'
        \<and> n_cols pc' = 0"
  then have "make_spheres w path' is_lidar = Inr []"
    by (auto simp: make_spheres_def)
  with a show "published s ?R = []"
    by (simp add: published_def send_pointcloud_def pointcloud_try_def)
next
  let ?R = "send_pointcloud self w channel sd_token timestamp is_lidar s"
  assume a: "get_sample_data_path (dataset self) sd_token = Inr path'
        \<and> (if is_lidar then lidar_from_file w path' else radar_from_file w path') = Inr pc'
        \<and> 0 < n_cols pc' \<and> (if is_lidar then 3 else 7) \<le> n_rows pc'
        \<and> channels self channel = Some chan'
        \<and> (\<forall>m. send_raises w chan' (timestamp * 1000) m = None)"
  then have ff: "(if is_lidar then lidar_from_file w path' else radar_from_file w path') = Inr pc'" by simp
  from make_spheres_total [OF ff] a obtain sphs where ms: "make_spheres w path' is_lidar = Inr sphs"
    by blast
  from make_spheres_Inr [OF ms] ff a have "sphs \<noteq> []"
    by (auto split: if_splits)
  with pointcloud_sends [OF _ ms] a show "published s ?R \<noteq> []"
    by blast
qed

theorem pointcloud_capped_witness:
  "get_sample_data_path (dataset demo_streamer) ''lid1'' = Inr ''/data/lid1''
   \<and> lidar_from_file demo_world ''/data/lid1'' = Inr demo_lidar
   \<and> n_cols demo_lidar = 2 \<and> n_rows demo_lidar = 4
   \<and> channels demo_streamer ''LIDAR_LEFT'' = Some 2
   \<and> published idle (send_pointcloud demo_streamer demo_world ''LIDAR_LEFT'' ''lid1'' 1000000 True idle)
      = [(2, 1000000000,
          SceneUpdate [Entity (Stamp 1 0) ''base_link'' ''LIDAR_LEFT'' (Stamp 0 500000000) True []
            [Sphere (Pose (0, 1, 2) (Quat 1 0 0 0)) (1 / 10, 1 / 10, 1 / 10) (RGBA 0 1 0 1),
             Sphere (Pose (10, 11, 12) (Quat 1 0 0 0)) (1 / 10, 1 / 10, 1 / 10) (RGBA 0 1 0 1)]
            []])]"
  using pointcloud_capped [where s = idle and self = demo_streamer and w = demo_world
      and channel = "''LIDAR_LEFT''" and sd_token = "''lid1''" and timestamp = 1000000
      and is_lidar = True and path' = "''/data/lid1''" and pc' = demo_lidar and chan' = 2]
  by (simp add: demo_streamer_def demo_dataset_def demo_world_def idle_def demo_lidar_def
        published_def send_pointcloud_def pointcloud_try_def make_spheres_def
        lidar_sphere_def xyz_def points_def channel_of_def get_def send_message_def ts_def
        upt_rec [of 0] upt_rec [of "Suc 0"] upt_rec [of 2])


section \<open>Properties of the annotation cubes\<close>

lemma annotation_prims_Inr:
  assumes "annotation_prims self ego ann_token = Inr pr"
  shows "\<exists>ann ego_inverse.
           sample_annotation_table (dataset self) ann_token = Some ann
           \<and> qinverse (ego_rotation ego) = Inr ego_inverse
           \<and> position (cube_pose (fst pr)) =
               qrotate ego_inverse (vsub (ann_translation ann) (ego_translation ego))
           \<and> orientation (cube_pose (fst pr)) = qmult ego_inverse (ann_rotation ann)"
  using assms
  by (auto simp: annotation_prims_def get_def Let_def split: sum.splits option.splits prod.splits)

lemma annotation_prims_total:
  assumes "sample_annotation_table (dataset self) ann_token = Some ann"
      and "instance_table (dataset self) (instance_token ann) = Some inst"
      and "category_table (dataset self) (category_token inst) = Some cat"
      and "0 < sum_of_squares (ego_rotation ego)"
  shows "\<exists>pr. annotation_prims self ego ann_token = Inr pr"
  using assms
  by (auto simp: annotation_prims_def get_def qinverse_def Let_def split: prod.splits)

lemma published_annotations:
  "published s (send_annotations self w smp timestamp s) = []
   \<or> (\<exists>tok sd ego prims.
         lidar_token_of smp = Some tok \<and> tok \<noteq> []
         \<and> sample_data_table (dataset self) tok = Some sd
         \<and> ego_pose_table (dataset self) (ego_pose_token sd) = Some ego
         \<and> for_each (annotation_prims self ego) (anns smp) = Inr prims
         \<and> published s (send_annotations self w smp timestamp s) =
             [(annotations_channel self, timestamp * 1000,
               SceneUpdate [Entity (ts timestamp) ''base_link'' ''annotations''
                 (Stamp 0 500000000) True (map fst prims) [] (map snd prims)])])"
  by (auto simp: published_def send_annotations_def annotations_try_def get_def
        send_message_def print_line_def
      split: sum.splits option.splits prod.splits)


lemma annotations_sends:
  assumes "lidar_token_of smp = Some tok" "tok \<noteq> []"
      and "sample_data_table (dataset self) tok = Some sd"
      and "ego_pose_table (dataset self) (ego_pose_token sd) = Some ego"
      and "for_each (annotation_prims self ego) (anns smp) = Inr prims" "prims \<noteq> []"
      and "\<forall>m. send_raises w (annotations_channel self) (timestamp * 1000) m = None"
  shows "published s (send_annotations self w smp timestamp s) \<noteq> []"
  using assms
  by (simp add: published_def send_annotations_def annotations_try_def get_def send_message_def)

text \<open>
  The inverse of a unit quaternion is its conjugate, and rotating by a unit quaternion
  undoes the rotation by its conjugate: turning a published position by the ego rotation
  gives the offset of the annotation from the vehicle back.
\<close>

lemma unit_inverse: "sum_of_squares q = 1 \<Longrightarrow> qinverse q = Inr (qconjugate q)"
  by (simp add: qinverse_def qscale_def qconjugate_def)

lemma unit_conj: "sum_of_squares q = 1 \<Longrightarrow> sum_of_squares (qconjugate q) = 1"
  by (simp add: sum_of_squares_def qconjugate_def)

lemma rotate_back:
  assumes "sum_of_squares q = 1"
  shows "qrotate q (qrotate (qconjugate q) v) = v"
proof -
  obtain a b c d where q: "q = Quat a b c d" by (cases q)
  obtain x y z where v: "v = (x, y, z)" by (cases v)
  from assms q have u: "a * a + b * b + c * c + d * d = 1" by (simp add: sum_of_squares_def)
  have n1: "qnormalise q = q" using assms by (simp add: qnormalise_def is_unit_def)
  have n2: "qnormalise (qconjugate q) = qconjugate q"
    using unit_conj [OF assms] by (simp add: qnormalise_def is_unit_def)
  have "qrotate q (qrotate (qconjugate q) v) =
        ((a * a + b * b + c * c + d * d) * (a * a + b * b + c * c + d * d) * x,
         (a * a + b * b + c * c + d * d) * (a * a + b * b + c * c + d * d) * y,
         (a * a + b * b + c * c + d * d) * (a * a + b * b + c * c + d * d) * z)"
    unfolding qrotate_def n1 n2 Let_def
    by (simp add: q v qmult_def qconjugate_def qvector_def algebra_simps)
  with u v show ?thesis by simp
qed

text \<open>
  C5. Whatever \<open>send_annotations\<close> sends is a single scene update of one entity on the
  annotations channel, built from the ego pose of the sample's lidar: it has one cube per
  annotation of the sample, in order, the position of cube \<open>i\<close> is the inverse of the ego
  rotation applied to the annotation's translation minus the ego translation, and its
  orientation is the inverse of the ego rotation times the annotation's rotation. With a
  lidar token, its ego pose with a rotation other than zero, a non-empty annotation list
  whose rows all exist and a send that does not raise, the message is sent.
\<close>

theorem annotations_ego_frame:
  "(published s (send_annotations self w smp timestamp s) = []
    \<or> (\<exists>tok sd ego ego_inverse e.
          lidar_token_of smp = Some tok
          \<and> sample_data_table (dataset self) tok = Some sd
          \<and> ego_pose_table (dataset self) (ego_pose_token sd) = Some ego
          \<and> qinverse (ego_rotation ego) = Inr ego_inverse
          \<and> published s (send_annotations self w smp timestamp s) =
               [(annotations_channel self, timestamp * 1000, SceneUpdate [e])]
          \<and> length (entity_cubes e) = length (anns smp)
          \<and> (\<forall>i<length (anns smp). \<exists>ann.
                sample_annotation_table (dataset self) (anns smp ! i) = Some ann
                \<and> position (cube_pose (entity_cubes e ! i)) =
                    qrotate ego_inverse (vsub (ann_translation ann) (ego_translation ego))
                \<and> orientation (cube_pose (entity_cubes e ! i)) =
                    qmult ego_inverse (ann_rotation ann))))
   \<and> (lidar_token_of smp = Some tok' \<and> tok' \<noteq> []
        \<and> sample_data_table (dataset self) tok' = Some sd'
        \<and> ego_pose_table (dataset self) (ego_pose_token sd') = Some ego'
        \<and> 0 < sum_of_squares (ego_rotation ego')
        \<and> anns smp \<noteq> []
        \<and> (\<forall>a\<in>set (anns smp). \<exists>ann inst cat.
              sample_annotation_table (dataset self) a = Some ann
              \<and> instance_table (dataset self) (instance_token ann) = Some inst
              \<and> category_table (dataset self) (category_token inst) = Some cat)
        \<and> (\<forall>m. send_raises w (annotations_channel self) (timestamp * 1000) m = None) \<longrightarrow>
       published s (send_annotations self w smp timestamp s) \<noteq> [])"
proof (intro conjI impI)
  let ?R = "send_annotations self w smp timestamp s"
  show "published s ?R = []
    \<or> (\<exists>tok sd ego ego_inverse e.
          lidar_token_of smp = Some tok
          \<and> sample_data_table (dataset self) tok = Some sd
          \<and> ego_pose_table (dataset self) (ego_pose_token sd) = Some ego
          \<and> qinverse (ego_rotation ego) = Inr ego_inverse
          \<and> published s ?R = [(annotations_channel self, timestamp * 1000, SceneUpdate [e])]
          \<and> length (entity_cubes e) = length (anns smp)
          \<and> (\<forall>i<length (anns smp). \<exists>ann.
                sample_annotation_table (dataset self) (anns smp ! i) = Some ann
                \<and> position (cube_pose (entity_cubes e ! i)) =
                    qrotate ego_inverse (vsub (ann_translation ann) (ego_translation ego))
                \<and> orientation (cube_pose (entity_cubes e ! i)) =
                    qmult ego_inverse (ann_rotation ann)))"
  proof (cases "published s ?R = []")
    case True
    then show ?thesis by simp
  next
    case False
    with published_annotations [of s self w smp timestamp]
    obtain tok sd ego prims where tok: "lidar_token_of smp = Some tok"
      and sd: "sample_data_table (dataset self) tok = Some sd"
      and ego: "ego_pose_table (dataset self) (ego_pose_token sd) = Some ego"
      and fe: "for_each (annotation_prims self ego) (anns smp) = Inr prims"
      and pub: "published s ?R =
             [(annotations_channel self, timestamp * 1000,
               SceneUpdate [Entity (ts timestamp) ''base_link'' ''annotations''
                 (Stamp 0 500000000) True (map fst prims) [] (map snd prims)])]"
      by blast
    from for_each_Inr [OF fe] have len: "length prims = length (anns smp)"
      and nth: "\<forall>i<length (anns smp). annotation_prims self ego (anns smp ! i) = Inr (prims ! i)"
      by auto
    have nonempty: "anns smp \<noteq> []"
    proof
      assume "anns smp = []"
      with fe have "prims = []" by simp
      with tok sd ego fe have "published s ?R = []"
        by (cases "lidar_token_of smp")
           (auto simp: published_def send_annotations_def annotations_try_def get_def
              \<open>anns smp = []\<close>)
      with False show False by simp
    qed
    then have "0 < length (anns smp)" by simp
    with nth have "annotation_prims self ego (anns smp ! 0) = Inr (prims ! 0)" by blast
    from annotation_prims_Inr [OF this]
    obtain ego_inverse where inv: "qinverse (ego_rotation ego) = Inr ego_inverse" by blast
    have each: "\<forall>i<length (anns smp). \<exists>ann.
        sample_annotation_table (dataset self) (anns smp ! i) = Some ann
        \<and> position (cube_pose (map fst prims ! i)) =
            qrotate ego_inverse (vsub (ann_translation ann) (ego_translation ego))
        \<and> orientation (cube_pose (map fst prims ! i)) = qmult ego_inverse (ann_rotation ann)"
    proof (intro allI impI)
      fix i assume i: "i < length (anns smp)"
      with nth have "annotation_prims self ego (anns smp ! i) = Inr (prims ! i)" by blast
      from annotation_prims_Inr [OF this] inv i len
      show "\<exists>ann. sample_annotation_table (dataset self) (anns smp ! i) = Some ann
        \<and> position (cube_pose (map fst prims ! i)) =
            qrotate ego_inverse (vsub (ann_translation ann) (ego_translation ego))
        \<and> orientation (cube_pose (map fst prims ! i)) = qmult ego_inverse (ann_rotation ann)"
        by auto
    qed
    show ?thesis
      apply (rule disjI2)
      apply (rule exI [of _ tok], rule exI [of _ sd], rule exI [of _ ego])
      apply (rule exI [of _ ego_inverse])
      apply (rule exI [of _ "Entity (ts timestamp) ''base_link'' ''annotations''
                 (Stamp 0 500000000) True (map fst prims) [] (map snd prims)"])
      using tok sd ego inv pub len each by simp
  qed
next
  let ?R = "send_annotations self w smp timestamp s"
  assume a: "lidar_token_of smp = Some tok' \<and> tok' \<noteq> []
        \<and> sample_data_table (dataset self) tok' = Some sd'
        \<and> ego_pose_table (dataset self) (ego_pose_token sd') = Some ego'
        \<and> 0 < sum_of_squares (ego_rotation ego')
        \<and> anns smp \<noteq> []
        \<and> (\<forall>a\<in>set (anns smp). \<exists>ann inst cat.
              sample_annotation_table (dataset self) a = Some ann
              \<and> instance_table (dataset self) (instance_token ann) = Some inst
              \<and> category_table (dataset self) (category_token inst) = Some cat)
        \<and> (\<forall>m. send_raises w (annotations_channel self) (timestamp * 1000) m = None)"
  then have "\<forall>a\<in>set (anns smp). \<exists>pr. annotation_prims self ego' a = Inr pr"
    using annotation_prims_total by blast
  from for_each_total [OF this]
  obtain prims where fe: "for_each (annotation_prims self ego') (anns smp) = Inr prims" by blast
  from for_each_Inr [OF fe] a have "prims \<noteq> []" by auto
  with annotations_sends [OF _ _ _ _ fe] a show "published s ?R \<noteq> []" by blast
qed


theorem annotations_ego_frame_witness:
  "lidar_token_of demo_sample_1 = Some ''lid1''
   \<and> sample_data_table (dataset demo_streamer) ''lid1'' = Some \<lparr>ego_pose_token = ''ego1''\<rparr>
   \<and> ego_pose_table (dataset demo_streamer) ''ego1''
        = Some \<lparr>ego_translation = (10, 0, 0), ego_rotation = Quat 0 0 0 1\<rparr>
   \<and> qinverse (Quat 0 0 0 1) = Inr (Quat 0 0 0 (- 1))
   \<and> qrotate (Quat 0 0 0 (- 1)) (vsub (12, 1, 0) (10, 0, 0)) = (- 2, - 1, 0)
   \<and> qmult (Quat 0 0 0 (- 1)) (Quat 0 0 0 1) = Quat 1 0 0 0
   \<and> published idle (send_annotations demo_streamer demo_world demo_sample_1 1000000 idle)
      = [(5, 1000000000,
          SceneUpdate [Entity (Stamp 1 0) ''base_link'' ''annotations'' (Stamp 0 500000000) True
            [Cube (Pose (- 2, - 1, 0) (Quat 1 0 0 0)) (5, 2, 3) (RGBA 0 (1 / 2) 1 (7 / 10))]
            []
            [TextPrim (Pose (- 2, - 1, 2) (Quat 1 0 0 0)) True 12 True (RGBA 1 1 1 1) ''car'']])]"
  using annotations_ego_frame [where s = idle and self = demo_streamer and w = demo_world
      and smp = demo_sample_1 and timestamp = 1000000 and tok' = "''lid1''"
      and sd' = "\<lparr>ego_pose_token = ''ego1''\<rparr>"
      and ego' = "\<lparr>ego_translation = (10, 0, 0), ego_rotation = Quat 0 0 0 1\<rparr>"]
  by (simp add: demo_streamer_def demo_dataset_def demo_world_def idle_def demo_sample_1_def
        published_def send_annotations_def annotations_try_def lidar_token_of_def truthy_def
        annotation_prims_def get_def send_message_def ts_def qinverse_def qrotate_def
        qnormalise_def is_unit_def sum_of_squares_def qconjugate_def qscale_def qmult_def
        qvector_def vsub_def category_color_def CATEGORY_COLORS_def)


section \<open>Properties of the relay loop\<close>

text \<open>
  No routine that sends reads or writes the flag: run from a state with another value of
  the flag, each gives the same result and the same messages and lines.
\<close>

lemma send_message_flag:
  "send_message w chan t m s = (r, s') \<Longrightarrow>
   send_message w chan t m (s\<lparr>running := b\<rparr>) = (r, s'\<lparr>running := b\<rparr>)"
  by (auto simp: send_message_def split: option.splits)

lemma send_transforms_flag:
  "send_transforms self w t s = (r, s') \<Longrightarrow>
   send_transforms self w t (s\<lparr>running := b\<rparr>) = (r, s'\<lparr>running := b\<rparr>)"
  by (simp add: send_transforms_def send_message_flag)

lemma camera_try_flag:
  "camera_try self w channel sd_token t s = (r, s') \<Longrightarrow>
   camera_try self w channel sd_token t (s\<lparr>running := b\<rparr>) = (r, s'\<lparr>running := b\<rparr>)"
  by (auto simp: camera_try_def send_message_def Let_def split: sum.splits option.splits)

lemma send_camera_flag:
  "send_camera self w channel sd_token t s = (r, s') \<Longrightarrow>
   send_camera self w channel sd_token t (s\<lparr>running := b\<rparr>) = (r, s'\<lparr>running := b\<rparr>)"
  by (cases "camera_try self w channel sd_token t s")
     (auto simp: send_camera_def print_line_def split: sum.splits dest: camera_try_flag [where b = b])

lemma pointcloud_try_flag:
  "pointcloud_try self w channel sd_token t is_lidar s = (r, s') \<Longrightarrow>
   pointcloud_try self w channel sd_token t is_lidar (s\<lparr>running := b\<rparr>) = (r, s'\<lparr>running := b\<rparr>)"
  by (auto simp: pointcloud_try_def send_message_def split: sum.splits option.splits if_splits)

lemma send_pointcloud_flag:
  "send_pointcloud self w channel sd_token t is_lidar s = (r, s') \<Longrightarrow>
   send_pointcloud self w channel sd_token t is_lidar (s\<lparr>running := b\<rparr>) = (r, s'\<lparr>running := b\<rparr>)"
  by (cases "pointcloud_try self w channel sd_token t is_lidar s")
     (auto simp: send_pointcloud_def print_line_def split: sum.splits
           dest: pointcloud_try_flag [where b = b])

lemma annotations_try_flag:
  "annotations_try self w smp t s = (r, s') \<Longrightarrow>
   annotations_try self w smp t (s\<lparr>running := b\<rparr>) = (r, s'\<lparr>running := b\<rparr>)"
  by (auto simp: annotations_try_def send_message_def split: sum.splits option.splits if_splits)

lemma send_annotations_flag:
  "send_annotations self w smp t s = (r, s') \<Longrightarrow>
   send_annotations self w smp t (s\<lparr>running := b\<rparr>) = (r, s'\<lparr>running := b\<rparr>)"
  by (cases "annotations_try self w smp t s")
     (auto simp: send_annotations_def print_line_def split: sum.splits
           dest: annotations_try_flag [where b = b])

lemma send_sensor_flag:
  "send_sensor self w t item s = (r, s') \<Longrightarrow>
   send_sensor self w t item (s\<lparr>running := b\<rparr>) = (r, s'\<lparr>running := b\<rparr>)"
  by (cases item) (auto simp: send_sensor_def send_camera_flag send_pointcloud_flag split: if_splits)

lemma for_sensors_flag:
  "for_sensors self w t items s = (r, s') \<Longrightarrow>
   for_sensors self w t items (s\<lparr>running := b\<rparr>) = (r, s'\<lparr>running := b\<rparr>)"
proof (induction items arbitrary: s)
  case Nil
  then show ?case by auto
next
  case (Cons item rest)
  obtain r1 s1 where one: "send_sensor self w t item s = (r1, s1)"
    by (cases "send_sensor self w t item s")
  note one' = send_sensor_flag [OF one, of b]
  show ?case
  proof (cases r1)
    case (Inl e)
    with one one' Cons.prems show ?thesis by auto
  next
    case (Inr u)
    with one Cons.prems have "for_sensors self w t rest s1 = (r, s')" by simp
    from Cons.IH [OF this] one' Inr show ?thesis by simp
  qed
qed

lemma send_frame_flag:
  assumes "send_frame self w smp s = (r, s')"
  shows "send_frame self w smp (s\<lparr>running := b\<rparr>) = (r, s'\<lparr>running := b\<rparr>)"
proof -
  let ?t = "sample_timestamp smp"
  obtain r1 s1 where one: "send_transforms self w ?t s = (r1, s1)"
    by (cases "send_transforms self w ?t s")
  note one' = send_transforms_flag [OF one, of b]
  show ?thesis
  proof (cases r1)
    case (Inl e)
    with one one' assms show ?thesis by (auto simp: send_frame_def)
  next
    case r1: (Inr u)
    obtain r2 s2 where two: "for_sensors self w ?t (data smp) s1 = (r2, s2)"
      by (cases "for_sensors self w ?t (data smp) s1")
    note two' = for_sensors_flag [OF two, of b]
    show ?thesis
    proof (cases r2)
      case (Inl e)
      with one one' two two' r1 assms show ?thesis by (auto simp: send_frame_def)
    next
      case (Inr u2)
      with one two r1 assms have "send_annotations self w smp ?t s2 = (r, s')"
        by (simp add: send_frame_def)
      from send_annotations_flag [OF this, of b] one' two' r1 Inr show ?thesis
        by (simp add: send_frame_def)
    qed
  qed
qed

lemma send_frame_running: "running (snd (send_frame self w smp s)) = running s"
proof -
  obtain r s' where rs: "send_frame self w smp s = (r, s')"
    by (cases "send_frame self w smp s")
  from send_frame_flag [OF rs, of "running s"]
  have "send_frame self w smp s = (r, s'\<lparr>running := running s\<rparr>)" by simp
  with rs have "s' = s'\<lparr>running := running s\<rparr>" by simp
  then have "running s' = running (s'\<lparr>running := running s\<rparr>)" by (rule arg_cong)
  with rs show ?thesis by simp
qed

text \<open>The three routines with a \<^verbatim>\<open>try\<close> return normally, and so does the loop over the sensors.\<close>

lemma send_camera_returns: "fst (send_camera self w channel sd_token t s) = Inr ()"
  by (simp add: send_camera_def split: prod.splits sum.splits)

lemma send_pointcloud_returns: "fst (send_pointcloud self w channel sd_token t is_lidar s) = Inr ()"
  by (simp add: send_pointcloud_def split: prod.splits sum.splits)

lemma send_annotations_returns: "fst (send_annotations self w smp t s) = Inr ()"
  by (simp add: send_annotations_def split: prod.splits sum.splits)

lemma send_sensor_returns: "fst (send_sensor self w t item s) = Inr ()"
  by (simp add: send_sensor_def send_camera_returns send_pointcloud_returns split: prod.splits)

lemma for_sensors_returns: "fst (for_sensors self w t items s) = Inr ()"
proof (induction items arbitrary: s)
  case Nil
  then show ?case by simp
next
  case (Cons item rest)
  have "fst (send_sensor self w t item s) = Inr ()" by (rule send_sensor_returns)
  then obtain s1 where "send_sensor self w t item s = (Inr (), s1)"
    by (cases "send_sensor self w t item s") auto
  then show ?case by (simp add: Cons.IH)
qed

lemma send_frame_returns:
  "fst (send_frame self w smp s) = fst (send_transforms self w (sample_timestamp smp) s)"
proof (cases "send_transforms self w (sample_timestamp smp) s")
  case (Pair r s1)
  show ?thesis
  proof (cases r)
    case (Inl e)
    with Pair show ?thesis by (simp add: send_frame_def)
  next
    case (Inr u)
    obtain s2 where s2: "for_sensors self w (sample_timestamp smp) (data smp) s1 = (Inr (), s2)"
      using for_sensors_returns [of self w "sample_timestamp smp" "data smp" s1]
      by (cases "for_sensors self w (sample_timestamp smp) (data smp) s1") auto
    with Pair Inr show ?thesis
      by (simp add: send_frame_def send_annotations_returns)
  qed
qed


text \<open>One frame, and the loops over the samples and over the scenes.\<close>

lemma frame_body_result:
  "fst (frame_body self w smp fc s) =
     (case fst (send_transforms self w (sample_timestamp smp) s) of
        Inl e \<Rightarrow> Inl e | Inr u \<Rightarrow> Inr (nxt smp, fc + 1))"
proof -
  obtain r s1 where rs: "send_frame self w smp s = (r, s1)"
    by (cases "send_frame self w smp s")
  with send_frame_returns [of self w smp s]
  have "fst (send_transforms self w (sample_timestamp smp) s) = r" by simp
  with rs show ?thesis
    by (cases r) (simp_all add: frame_body_def Let_def)
qed

lemma transforms_sent:
  "send_raises w (tf_channel self) (t * 1000)
     (FrameTransforms [Transform (ts t) ''world'' ''base_link'' (0, 0, 0) (Quat 1 0 0 0)]) = None
   \<Longrightarrow> fst (send_transforms self w t s) = Inr ()"
  by (simp add: send_transforms_def send_message_def)

lemma frame_body_running:
  assumes "fst (frame_body self w smp fc s) = Inr x"
      and "running s" and "\<forall>s'. running s' \<longrightarrow> other_tasks w s'"
  shows "running (snd (frame_body self w smp fc s))"
proof -
  obtain r s1 where rs: "send_frame self w smp s = (r, s1)"
    by (cases "send_frame self w smp s")
  from send_frame_running [of self w smp s] rs assms(2) have run: "running s1" by simp
  from assms(1) rs obtain u where r: "r = Inr u"
    by (cases r) (auto simp: frame_body_def)
  from run have "running (print_line (Frame_line (fc + 1)) s1)" by (simp add: print_line_def)
  with run assms(3) have "other_tasks w (print_line (Frame_line (fc + 1)) s1)" "other_tasks w s1"
    by blast+
  with rs r show ?thesis
    by (simp add: frame_body_def Let_def sleep_def)
qed

lemma sample_loop_stopped: "\<not> running s \<Longrightarrow> sample_loop self w tok fc s = Some (Inr (), s)"
  by (subst sample_loop.simps) simp

lemma sample_loop_end: "sample_loop self w [] fc s = Some (Inr (), s)"
  by (subst sample_loop.simps) simp

lemma sample_loop_step:
  assumes "tok \<noteq> []" "running s" "sample_table (dataset self) tok = Some smp"
  shows "sample_loop self w tok fc s =
     (case frame_body self w smp fc s of
        (Inl e, s1) \<Rightarrow> Some (Inl e, s1)
      | (Inr (tok', fc'), s1) \<Rightarrow> sample_loop self w tok' fc' s1)"
  using assms by (subst sample_loop.simps) (simp add: frame_def get_def)

lemma sample_loop_chain:
  assumes "chain_of (dataset self) tok smps" and "running s"
      and "\<forall>t m. send_raises w (tf_channel self) t m = None"
      and "\<forall>s'. running s' \<longrightarrow> other_tasks w s'"
  shows "sample_loop self w tok fc s = Some (Inr (), walk_chain self w fc smps s)
       \<and> running (walk_chain self w fc smps s)"
  using assms(1,2)
proof (induction smps arbitrary: tok fc s)
  case Nil
  then show ?case by (simp add: sample_loop_end)
next
  case (Cons smp rest)
  then have tok: "tok \<noteq> []" and row: "sample_table (dataset self) tok = Some smp"
    and rest: "chain_of (dataset self) (nxt smp) rest" by simp_all
  have "fst (send_transforms self w (sample_timestamp smp) s) = Inr ()"
    using assms(3) by (simp add: transforms_sent)
  with frame_body_result [of self w smp fc s]
  have res: "fst (frame_body self w smp fc s) = Inr (nxt smp, fc + 1)" by simp
  then obtain s1 where fb: "frame_body self w smp fc s = (Inr (nxt smp, fc + 1), s1)"
    by (cases "frame_body self w smp fc s") auto
  from frame_body_running [OF res Cons.prems(2) assms(4)] fb have run1: "running s1" by simp
  from sample_loop_step [OF tok Cons.prems(2) row, of w fc] fb
  have "sample_loop self w tok fc s = sample_loop self w (nxt smp) (fc + 1) s1" by simp
  with Cons.IH [OF rest run1, of "fc + 1"] fb show ?case by simp
qed

lemma scene_loop_chains:
  assumes "list_all2 (\<lambda>sc smps. chain_of (dataset self) (first_sample_token sc) smps) scs chs"
      and "running s"
      and "\<forall>t m. send_raises w (tf_channel self) t m = None"
      and "\<forall>s'. running s' \<longrightarrow> other_tasks w s'"
  shows "scene_loop self w idx scs s = Some (Inr (), walk_scenes self w idx chs s)
       \<and> running (walk_scenes self w idx chs s)"
  using assms(1,2)
proof (induction scs chs arbitrary: idx s rule: list_all2_induct)
  case Nil
  then show ?case by simp
next
  case (Cons sc scs smps chs)
  let ?s0 = "print_line (Streaming_scene (idx + 1) (length (scene (dataset self)))) s"
  from Cons.prems have run0: "running ?s0" by (simp add: print_line_def)
  from sample_loop_chain [OF Cons.hyps(1) run0 assms(3,4), of 0]
  have loop: "sample_loop self w (first_sample_token sc) 0 ?s0 = Some (Inr (), walk_chain self w 0 smps ?s0)"
    and run1: "running (walk_chain self w 0 smps ?s0)" by simp_all
  from Cons.IH [OF run1, of "idx + 1"] loop run1 show ?case by simp
qed


text \<open>Only \<open>send_transforms\<close> adds to \<open>frames_sent\<close>, one log time per frame.\<close>

lemma frames_sent_print: "frames_sent (print_line l s) = frames_sent s"
  by (simp add: frames_sent_def print_line_def)

lemma frames_sent_sleep: "frames_sent (sleep w s) = frames_sent s"
  by (simp add: frames_sent_def sleep_def)

lemma frames_sent_camera:
  "frames_sent (snd (send_camera self w channel sd_token t s)) = frames_sent s"
  by (auto simp: frames_sent_def send_camera_def camera_try_def send_message_def print_line_def
        camera_info_def Let_def
      split: sum.splits option.splits prod.splits)

lemma frames_sent_pointcloud:
  "frames_sent (snd (send_pointcloud self w channel sd_token t is_lidar s)) = frames_sent s"
  by (auto simp: frames_sent_def send_pointcloud_def pointcloud_try_def send_message_def
        print_line_def
      split: sum.splits option.splits prod.splits if_splits)

lemma frames_sent_annotations:
  "frames_sent (snd (send_annotations self w smp t s)) = frames_sent s"
  by (auto simp: frames_sent_def send_annotations_def annotations_try_def send_message_def
        print_line_def
      split: sum.splits option.splits prod.splits if_splits)

lemma frames_sent_sensor:
  "frames_sent (snd (send_sensor self w t item s)) = frames_sent s"
  by (cases item) (simp add: send_sensor_def frames_sent_camera frames_sent_pointcloud)

lemma frames_sent_sensors:
  "frames_sent (snd (for_sensors self w t items s)) = frames_sent s"
proof (induction items arbitrary: s)
  case Nil
  then show ?case by simp
next
  case (Cons item rest)
  obtain r1 s1 where one: "send_sensor self w t item s = (r1, s1)"
    by (cases "send_sensor self w t item s")
  with frames_sent_sensor [of self w t item s] have "frames_sent s1 = frames_sent s" by simp
  with one Cons.IH [of s1] show ?case by (cases r1) simp_all
qed

lemma frames_sent_frame_body:
  assumes "\<forall>t m. send_raises w (tf_channel self) t m = None"
  shows "frames_sent (snd (frame_body self w smp fc s)) = frames_sent s @ [sample_timestamp smp * 1000]"
proof -
  let ?t = "sample_timestamp smp"
  let ?s1 = "s\<lparr>sent := sent s @ [(tf_channel self, ?t * 1000,
     FrameTransforms [Transform (ts ?t) ''world'' ''base_link'' (0, 0, 0) (Quat 1 0 0 0)])]\<rparr>"
  have one: "send_transforms self w ?t s = (Inr (), ?s1)"
    using assms by (simp add: send_transforms_def send_message_def)
  have f1: "frames_sent ?s1 = frames_sent s @ [?t * 1000]"
    by (simp add: frames_sent_def)
  obtain s2 where two: "for_sensors self w ?t (data smp) ?s1 = (Inr (), s2)"
    using for_sensors_returns [of self w ?t "data smp" ?s1]
    by (cases "for_sensors self w ?t (data smp) ?s1") auto
  with frames_sent_sensors [of self w ?t "data smp" ?s1] f1
  have f2: "frames_sent s2 = frames_sent s @ [?t * 1000]" by simp
  obtain s3 where three: "send_annotations self w smp ?t s2 = (Inr (), s3)"
    using send_annotations_returns [of self w smp ?t s2]
    by (cases "send_annotations self w smp ?t s2") auto
  with frames_sent_annotations [of self w smp ?t s2] f2
  have f3: "frames_sent s3 = frames_sent s @ [?t * 1000]" by simp
  from one two three have "send_frame self w smp s = (Inr (), s3)"
    by (simp add: send_frame_def)
  with f3 show ?thesis
    by (simp add: frame_body_def Let_def frames_sent_print frames_sent_sleep)
qed

lemma frames_sent_walk_chain:
  assumes "\<forall>t m. send_raises w (tf_channel self) t m = None"
  shows "frames_sent (walk_chain self w fc smps s) =
           frames_sent s @ map (\<lambda>smp. sample_timestamp smp * 1000) smps"
  by (induction smps arbitrary: fc s) (simp_all add: frames_sent_frame_body [OF assms])

lemma frames_sent_walk_scenes:
  assumes "\<forall>t m. send_raises w (tf_channel self) t m = None"
  shows "frames_sent (walk_scenes self w idx chs s) =
           frames_sent s @ map (\<lambda>smp. sample_timestamp smp * 1000) (concat chs)"
  by (induction chs arbitrary: idx s)
     (simp_all add: frames_sent_walk_chain [OF assms] frames_sent_print)

text \<open>
  C1. Let every scene of the table start a chain of samples that ends at an empty
  \<^verbatim>\<open>next\<close> token, let the flag be set and stay set, and let the transform messages go
  out. Then \<open>stream_data\<close> returns, and its final state is the one reached by taking the
  scenes in table order and, within a scene, the samples of its chain in chain order,
  handling each exactly once. The log holds one \<^verbatim>\<open>FrameTransforms\<close> message per sample
  of the chains, in that order.
\<close>

theorem stream_data_walks:
  assumes "list_all2 (\<lambda>sc smps. chain_of (dataset self) (first_sample_token sc) smps)
             (scene (dataset self)) chs"
      and "running s"
      and "\<forall>t m. send_raises w (tf_channel self) t m = None"
      and "\<forall>s'. running s' \<longrightarrow> other_tasks w s'"
  shows "stream_data self w s =
           Some (Inr (), print_line Streaming_complete (walk_scenes self w 0 chs s))
       \<and> frames_sent (print_line Streaming_complete (walk_scenes self w 0 chs s)) =
           frames_sent s @ map (\<lambda>smp. sample_timestamp smp * 1000) (concat chs)"
  using scene_loop_chains [OF assms, of 0] frames_sent_walk_scenes [OF assms(3), of 0 chs s]
  by (simp add: stream_data_def frames_sent_print)

theorem stream_data_walks_witness:
  "list_all2 (\<lambda>sc smps. chain_of (dataset demo_streamer) (first_sample_token sc) smps)
     (scene (dataset demo_streamer)) [[demo_sample_1, demo_sample_2]]
   \<and> running idle
   \<and> (\<forall>t m. send_raises demo_world (tf_channel demo_streamer) t m = None)
   \<and> other_tasks demo_world = running
   \<and> stream_data demo_streamer demo_world idle =
        Some (Inr (), print_line Streaming_complete
                        (walk_scenes demo_streamer demo_world 0 [[demo_sample_1, demo_sample_2]] idle))
   \<and> frames_sent (print_line Streaming_complete
                      (walk_scenes demo_streamer demo_world 0 [[demo_sample_1, demo_sample_2]] idle))
        = [1000000000, 1100000000]"
proof -
  have c: "list_all2 (\<lambda>sc smps. chain_of (dataset demo_streamer) (first_sample_token sc) smps)
     (scene (dataset demo_streamer)) [[demo_sample_1, demo_sample_2]]"
    by (simp add: demo_streamer_def demo_dataset_def demo_sample_1_def demo_sample_2_def)
  have r: "running idle" by (simp add: idle_def)
  have t: "\<forall>t m. send_raises demo_world (tf_channel demo_streamer) t m = None"
    by (simp add: demo_world_def)
  have o: "\<forall>s'. running s' \<longrightarrow> other_tasks demo_world s'" by (simp add: demo_world_def)
  have f: "frames_sent idle = []" by (simp add: frames_sent_def idle_def)
  have o': "other_tasks demo_world = running" by (simp add: demo_world_def)
  from stream_data_walks [OF c r t o] c r t o' f show ?thesis
    by (simp add: demo_sample_1_def demo_sample_2_def)
qed







text \<open>A frame that ends while another task clears the flag leaves the flag cleared.\<close>

lemma frame_body_stopped:
  assumes "fst (frame_body self w smp fc s) = Inr x" and "\<forall>s'. \<not> other_tasks w s'"
  shows "\<not> running (snd (frame_body self w smp fc s))"
proof -
  obtain r s1 where rs: "send_frame self w smp s = (r, s1)"
    by (cases "send_frame self w smp s")
  from assms(1) rs obtain u where r: "r = Inr u"
    by (cases r) (auto simp: frame_body_def)
  with rs assms(2) show ?thesis
    by (simp add: frame_body_def Let_def sleep_def)
qed

text \<open>
  C8. With the flag cleared the \<^verbatim>\<open>while\<close> loop handles no sample and returns the state
  as it is. When the flag is cleared during a frame, the loop finishes this frame and
  returns without looking at the next token, and the loop over the scenes then stops
  without visiting the scenes that remain. Within a frame the flag is not read: with
  another value of the flag \<open>send_frame\<close> gives the same result, messages and lines, and
  it leaves the flag as it found it.
\<close>

theorem cancellation_between_frames:
  "(\<not> running s \<longrightarrow> sample_loop self w tok fc s = Some (Inr (), s))
   \<and> (running s \<and> tok \<noteq> [] \<and> frame self w tok fc s = (Inr (tok', fc'), s1) \<and> \<not> running s1 \<longrightarrow>
        sample_loop self w tok fc s = Some (Inr (), s1))
   \<and> (sample_loop self w (first_sample_token sc) 0
          (print_line (Streaming_scene (idx + 1) (length (scene (dataset self)))) s)
          = Some (Inr (), s2) \<and> \<not> running s2 \<longrightarrow>
        scene_loop self w idx (sc # rest) s = Some (Inr (), s2))
   \<and> send_frame self w smp (s\<lparr>running := b\<rparr>) =
        (fst (send_frame self w smp s), (snd (send_frame self w smp s))\<lparr>running := b\<rparr>)
   \<and> running (snd (send_frame self w smp s)) = running s"
proof (intro conjI impI)
  assume "\<not> running s"
  then show "sample_loop self w tok fc s = Some (Inr (), s)"
    by (rule sample_loop_stopped)
next
  assume a: "running s \<and> tok \<noteq> [] \<and> frame self w tok fc s = (Inr (tok', fc'), s1) \<and> \<not> running s1"
  then have "sample_loop self w tok fc s = sample_loop self w tok' fc' s1"
    by (subst sample_loop.simps) simp
  with a show "sample_loop self w tok fc s = Some (Inr (), s1)"
    by (simp add: sample_loop_stopped)
next
  assume "sample_loop self w (first_sample_token sc) 0
          (print_line (Streaming_scene (idx + 1) (length (scene (dataset self)))) s)
          = Some (Inr (), s2) \<and> \<not> running s2"
  then show "scene_loop self w idx (sc # rest) s = Some (Inr (), s2)"
    by simp
next
  obtain r s' where rs: "send_frame self w smp s = (r, s')"
    by (cases "send_frame self w smp s")
  from send_frame_flag [OF rs, of b] rs
  show "send_frame self w smp (s\<lparr>running := b\<rparr>) =
        (fst (send_frame self w smp s), (snd (send_frame self w smp s))\<lparr>running := b\<rparr>)"
    by simp
next
  show "running (snd (send_frame self w smp s)) = running s"
    by (rule send_frame_running)
qed

theorem cancellation_between_frames_witness:
  "running idle \<and> ''s1'' \<noteq> []
   \<and> fst (frame demo_streamer demo_stopping_world ''s1'' 0 idle) = Inr (''s2'', 1)
   \<and> \<not> running (snd (frame demo_streamer demo_stopping_world ''s1'' 0 idle))
   \<and> sample_loop demo_streamer demo_stopping_world ''s1'' 0 idle =
        Some (Inr (), snd (frame demo_streamer demo_stopping_world ''s1'' 0 idle))
   \<and> frames_sent (snd (frame demo_streamer demo_stopping_world ''s1'' 0 idle)) = [1000000000]"
proof -
  let ?w = demo_stopping_world
  let ?f = "frame demo_streamer ?w ''s1'' 0 idle"
  have tf: "\<forall>t m. send_raises ?w (tf_channel demo_streamer) t m = None"
    by (simp add: demo_stopping_world_def demo_world_def)
  have fr: "?f = frame_body demo_streamer ?w demo_sample_1 0 idle"
    by (simp add: frame_def get_def demo_streamer_def demo_dataset_def)
  have "fst (send_transforms demo_streamer ?w (sample_timestamp demo_sample_1) idle) = Inr ()"
    using tf by (simp add: transforms_sent)
  with frame_body_result [of demo_streamer ?w demo_sample_1 0 idle]
  have res: "fst (frame_body demo_streamer ?w demo_sample_1 0 idle) = Inr (''s2'', 1)"
    by (simp add: demo_sample_1_def)
  have "\<forall>s'. \<not> other_tasks ?w s'" by (simp add: demo_stopping_world_def)
  from frame_body_stopped [OF res this]
  have nr: "\<not> running (snd (frame_body demo_streamer ?w demo_sample_1 0 idle))" .
  have fs: "frames_sent (snd (frame_body demo_streamer ?w demo_sample_1 0 idle)) = [1000000000]"
    using frames_sent_frame_body [OF tf, of demo_sample_1 0 idle]
    by (simp add: frames_sent_def idle_def demo_sample_1_def)
  have run: "running idle" by (simp add: idle_def)
  from res fr have eq: "?f = (Inr (''s2'', 1), snd ?f)"
    by (metis prod.collapse)
  from cancellation_between_frames [where s = idle and self = demo_streamer and w = ?w
      and tok = "''s1''" and fc = 0 and tok' = "''s2''" and fc' = 1 and ?s1.0 = "snd ?f"]
    eq run nr fr
  have "sample_loop demo_streamer ?w ''s1'' 0 idle = Some (Inr (), snd ?f)" by simp
  with run res nr fs fr show ?thesis by simp
qed

end
